theory Spec2Isabelle
  imports Main "HOL-Library.Code_Target_Numeral"
begin

section \<open>Values of the JavaScript program\<close>

text \<open>
  The repository holds one Express application in two variants: \<^verbatim>\<open>main.js\<close> keeps the
  items in a MySQL table \<^verbatim>\<open>items\<close>, the second file keeps them in the array
  \<^verbatim>\<open>devices\<close>. Both store uploaded photos as files under the directory \<^verbatim>\<open>cache\<close>.
  An item is the object \<^verbatim>\<open>{id, inventory_name, description, photo}\<close>; \<^verbatim>\<open>photo\<close> is the
  path of the file or \<^verbatim>\<open>null\<close>.
\<close>

record item =
  item_id :: nat
  inventory_name :: string
  description :: string
  photo :: "string option"

text \<open>
  A string is the list of the bytes of its UTF-8 encoding: a character beyond ASCII is
  two or three bytes (U+00A0 is \<^verbatim>\<open>C2 A0\<close>).

  A JavaScript number, as far as the program looks at it: the program only asks whether
  it is \<^verbatim>\<open>NaN\<close> and whether it equals the id of an item, and ids are non-negative
  integers. \<open>NonNegInt n\<close> is the double whose value is the integer \<open>n\<close> (\<^verbatim>\<open>-0\<close> counts as
  0: \<^verbatim>\<open>-0 === 0\<close>); every other number (negative, fractional, infinite) is
  \<open>OtherNumber\<close>.
\<close>

datatype jsnum = NaN | NonNegInt nat | OtherNumber

definition isNaN :: "jsnum \<Rightarrow> bool" where
  "isNaN n = (n = NaN)"

text \<open>The value \<^verbatim>\<open>req.body.id\<close>: absent, a string (form field) or a JSON number.\<close>

datatype body_id = IdUndefined | IdString string | IdNumber jsnum

text \<open>Truthiness of a value that is a string, \<^verbatim>\<open>null\<close> or \<^verbatim>\<open>undefined\<close>.\<close>

definition truthy :: "string option \<Rightarrow> bool" where
  "truthy v = (case v of None \<Rightarrow> False | Some s \<Rightarrow> s \<noteq> [])"

subsection \<open>\<^verbatim>\<open>String.prototype.trim\<close> and \<^verbatim>\<open>Number\<close>\<close>

text \<open>
  The white space and line terminators of ECMAScript, which \<^verbatim>\<open>trim\<close> and \<^verbatim>\<open>Number\<close> strip.
  In one byte: TAB, LF, VT, FF, CR and SPACE. In two bytes: U+00A0. In three bytes:
  U+1680, U+2000 to U+200A, U+2028, U+2029, U+202F, U+205F, U+3000 and U+FEFF.
\<close>

definition space1 :: "char \<Rightarrow> bool" where
  "space1 a = (a = CHR 0x09 \<or> a = CHR 0x0A \<or> a = CHR 0x0B \<or> a = CHR 0x0C \<or>
               a = CHR 0x0D \<or> a = CHR 0x20)"

definition space2 :: "char \<Rightarrow> char \<Rightarrow> bool" where
  "space2 a b = (a = CHR 0xC2 \<and> b = CHR 0xA0)"

definition space3 :: "char \<Rightarrow> char \<Rightarrow> char \<Rightarrow> bool" where
  "space3 a b c =
     ((a = CHR 0xE1 \<and> b = CHR 0x9A \<and> c = CHR 0x80)
      \<or> (a = CHR 0xE2 \<and> b = CHR 0x80
          \<and> ((128 \<le> (of_char c :: nat) \<and> (of_char c :: nat) \<le> 138)
              \<or> c = CHR 0xA8 \<or> c = CHR 0xA9 \<or> c = CHR 0xAF))
      \<or> (a = CHR 0xE2 \<and> b = CHR 0x81 \<and> c = CHR 0x9F)
      \<or> (a = CHR 0xE3 \<and> b = CHR 0x80 \<and> c = CHR 0x80)
      \<or> (a = CHR 0xEF \<and> b = CHR 0xBB \<and> c = CHR 0xBF))"

text \<open>
  The string without the white space it starts with. With \<open>backwards\<close> the string is
  read from its end: the bytes of a character come last byte first.
\<close>

fun strip_spaces :: "bool \<Rightarrow> string \<Rightarrow> string" where
  "strip_spaces backwards (a # b # c # s) =
     (if space1 a then strip_spaces backwards (b # c # s)
      else if (if backwards then space2 b a else space2 a b) then strip_spaces backwards (c # s)
      else if (if backwards then space3 c b a else space3 a b c) then strip_spaces backwards s
      else a # b # c # s)"
| "strip_spaces backwards [a, b] =
     (if space1 a then strip_spaces backwards [b]
      else if (if backwards then space2 b a else space2 a b) then []
      else [a, b])"
| "strip_spaces backwards [a] = (if space1 a then [] else [a])"
| "strip_spaces backwards [] = []"

definition trim :: "string \<Rightarrow> string" where
  "trim s = rev (strip_spaces True (rev (strip_spaces False s)))"

definition is_digit :: "char \<Rightarrow> bool" where
  "is_digit c = (48 \<le> (of_char c :: nat) \<and> (of_char c :: nat) \<le> 57)"

definition digit_value :: "char \<Rightarrow> nat" where
  "digit_value c =
     (let n = (of_char c :: nat) in
      if 48 \<le> n \<and> n \<le> 57 then n - 48
      else if 97 \<le> n \<and> n \<le> 102 then n - 87
      else if 65 \<le> n \<and> n \<le> 70 then n - 55
      else 0)"

definition is_radix_digit :: "nat \<Rightarrow> char \<Rightarrow> bool" where
  "is_radix_digit b c =
     (let n = (of_char c :: nat) in
      ((48 \<le> n \<and> n \<le> 57) \<or> (97 \<le> n \<and> n \<le> 102) \<or> (65 \<le> n \<and> n \<le> 70))
      \<and> digit_value c < b)"

definition digits_value :: "nat \<Rightarrow> string \<Rightarrow> nat" where
  "digits_value b ds = foldl (\<lambda>a c. b * a + digit_value c) 0 ds"

text \<open>The number of binary digits of \<open>n\<close>.\<close>

fun bit_length :: "nat \<Rightarrow> nat" where
  "bit_length n = (if n = 0 then 0 else Suc (bit_length (n div 2)))"

declare bit_length.simps [simp del]

text \<open>For positive \<open>p\<close> and \<open>q\<close>, the exponent \<open>e\<close> with \<open>2 ^ e \<le> p / q < 2 ^ (e + 1)\<close>.\<close>

definition floor_log2 :: "nat \<Rightarrow> nat \<Rightarrow> int" where
  "floor_log2 p q =
     (let e0 = int (bit_length p) - int (bit_length q) in
      if (if 0 \<le> e0 then q * 2 ^ nat e0 \<le> p else q \<le> p * 2 ^ nat (- e0)) then e0 else e0 - 1)"

text \<open>The integer nearest to \<open>n / d\<close>; of two equally near ones, the even one.\<close>

definition round_half_even :: "nat \<Rightarrow> nat \<Rightarrow> nat" where
  "round_half_even n d =
     (let k = n div d; r = n mod d in
      if 2 * r < d then k else if d < 2 * r then k + 1 else if even k then k else k + 1)"

text \<open>
  The Number value of the fraction \<open>p / q\<close> (\<open>q\<close> positive): the IEEE 754 double nearest to
  it, ties to the even significand. A double is \<open>n * 2 ^ x\<close> with \<open>n < 2 ^ 53\<close> and
  \<open>-1074 \<le> x\<close>; from \<open>2 ^ 1024\<close> on the value is \<^verbatim>\<open>Infinity\<close>.
\<close>

definition number_value :: "nat \<Rightarrow> nat \<Rightarrow> jsnum" where
  "number_value p q =
     (if p = 0 then NonNegInt 0
      else
        let x = max (floor_log2 p q - 52) (- 1074) in
        if 0 \<le> x then
          (let n = round_half_even p (q * 2 ^ nat x) in
           if 2 ^ 1024 \<le> n * 2 ^ nat x then OtherNumber else NonNegInt (n * 2 ^ nat x))
        else
          (let n = round_half_even (p * 2 ^ nat (- x)) q in
           if 2 ^ nat (- x) dvd n then NonNegInt (n div 2 ^ nat (- x)) else OtherNumber))"

text \<open>\<^verbatim>\<open>0x..\<close>, \<^verbatim>\<open>0o..\<close> and \<^verbatim>\<open>0b..\<close>: at least one digit of the radix, no sign.\<close>

definition radix_literal :: "nat \<Rightarrow> string \<Rightarrow> jsnum" where
  "radix_literal b ds =
     (if ds \<noteq> [] \<and> list_all (is_radix_digit b) ds then number_value (digits_value b ds) 1
      else NaN)"

text \<open>
  The exponent part of a decimal literal: nothing, or \<^verbatim>\<open>e\<close>/\<^verbatim>\<open>E\<close>, an optional sign and
  at least one digit. \<open>None\<close> when the text is not an exponent part.
\<close>

definition exponent_part :: "string \<Rightarrow> int option" where
  "exponent_part r =
     (case r of
        [] \<Rightarrow> Some 0
      | e # t \<Rightarrow>
          if e = CHR ''e'' \<or> e = CHR ''E'' then
            (case t of
               [] \<Rightarrow> None
             | s # ds \<Rightarrow>
                 if s = CHR ''+'' then
                   (if ds \<noteq> [] \<and> list_all is_digit ds then Some (int (digits_value 10 ds))
                    else None)
                 else if s = CHR ''-'' then
                   (if ds \<noteq> [] \<and> list_all is_digit ds then Some (- int (digits_value 10 ds))
                    else None)
                 else if list_all is_digit t then Some (int (digits_value 10 t))
                 else None)
          else None)"

text \<open>
  An unsigned decimal literal \<^verbatim>\<open>digits [. digits] [exponent]\<close> or \<^verbatim>\<open>. digits [exponent]\<close>.
  Its value is \<open>m * 10 ^ shift\<close>, for the number \<open>m\<close> its digits spell and the exponent less
  the number of digits after the point; the Number is the double nearest to that value.
  With a minus sign before the literal it is \<^verbatim>\<open>-0\<close> or a negative number.
\<close>

definition unsigned_decimal :: "bool \<Rightarrow> string \<Rightarrow> jsnum" where
  "unsigned_decimal negative u =
     (let ip = takeWhile is_digit u;
          r1 = dropWhile is_digit u;
          fp = (case r1 of [] \<Rightarrow> [] | c # t \<Rightarrow> if c = CHR ''.'' then takeWhile is_digit t else []);
          r2 = (case r1 of [] \<Rightarrow> [] | c # t \<Rightarrow> if c = CHR ''.'' then dropWhile is_digit t else r1)
      in if ip = [] \<and> fp = [] then NaN
         else
           (case exponent_part r2 of
              None \<Rightarrow> NaN
            | Some e \<Rightarrow>
                let m = digits_value 10 (ip @ fp);
                    shift = e - int (length fp);
                    v = (if 0 \<le> shift then number_value (m * 10 ^ nat shift) 1
                         else number_value m (10 ^ nat (- shift)))
                in if negative then (if v = NonNegInt 0 then NonNegInt 0 else OtherNumber)
                   else v))"

definition signed_decimal :: "string \<Rightarrow> jsnum" where
  "signed_decimal s =
     (let negative = (case s of [] \<Rightarrow> False | c # _ \<Rightarrow> c = CHR ''-'');
          u = (case s of [] \<Rightarrow> [] | c # t \<Rightarrow> if c = CHR ''+'' \<or> c = CHR ''-'' then t else s)
      in if u = ''Infinity'' then OtherNumber else unsigned_decimal negative u)"

text \<open>\<^verbatim>\<open>Number(s)\<close> for a string \<open>s\<close>.\<close>

definition Number :: "string \<Rightarrow> jsnum" where
  "Number s0 =
     (let s = trim s0 in
      if s = [] then NonNegInt 0
      else if take 2 s = ''0x'' \<or> take 2 s = ''0X'' then radix_literal 16 (drop 2 s)
      else if take 2 s = ''0o'' \<or> take 2 s = ''0O'' then radix_literal 8 (drop 2 s)
      else if take 2 s = ''0b'' \<or> take 2 s = ''0B'' then radix_literal 2 (drop 2 s)
      else signed_decimal s)"

text \<open>\<^verbatim>\<open>Number(req.body.id)\<close>: \<^verbatim>\<open>Number(undefined)\<close> is \<^verbatim>\<open>NaN\<close>.\<close>

definition Number_of_id :: "body_id \<Rightarrow> jsnum" where
  "Number_of_id v =
     (case v of IdUndefined \<Rightarrow> NaN | IdString s \<Rightarrow> Number s | IdNumber n \<Rightarrow> n)"

text \<open>The decimal text of an id, as the template \<^verbatim>\<open>`/inventory/${id}/photo`\<close> prints it.\<close>

definition digit_char :: "nat \<Rightarrow> char" where
  "digit_char d =
     (if d = 0 then CHR ''0'' else if d = 1 then CHR ''1'' else if d = 2 then CHR ''2''
      else if d = 3 then CHR ''3'' else if d = 4 then CHR ''4'' else if d = 5 then CHR ''5''
      else if d = 6 then CHR ''6'' else if d = 7 then CHR ''7'' else if d = 8 then CHR ''8''
      else CHR ''9'')"

fun string_of_nat :: "nat \<Rightarrow> string" where
  "string_of_nat n =
     (if n < 10 then [digit_char n]
      else string_of_nat (n div 10) @ [digit_char (n mod 10)])"

declare string_of_nat.simps [simp del]

definition photo_url_of :: "nat \<Rightarrow> string" where
  "photo_url_of i = ''/inventory/'' @ string_of_nat i @ ''/photo''"

section \<open>Requests, responses and the files on disk\<close>

datatype http_method = GET | HEAD | POST | PUT | DELETE | PATCH | OPTIONS | OtherMethod string

text \<open>
  The file part named \<^verbatim>\<open>photo\<close> of a multipart body, as far as multer's \<^verbatim>\<open>filename\<close>
  callback reads it: \<open>uniqueSuffix\<close> is the text of
  \<^verbatim>\<open>Date.now() + '-' + Math.round(Math.random() * 1E9)\<close>, chosen by the environment,
  \<open>extname\<close> is \<^verbatim>\<open>path.extname(file.originalname)\<close>.
\<close>

record upload =
  uniqueSuffix :: string
  extname :: string

text \<open>
  A request after Express has parsed it: the method, the segments of the path, the
  route parameter \<^verbatim>\<open>req.params.id\<close> (set by the router), the fields of \<^verbatim>\<open>req.body\<close> the
  handlers read (text fields are strings or absent) and the uploaded file part.
\<close>

record request =
  req_method :: http_method
  req_path :: "string list"
  params_id :: string
  body_inventory_name :: "string option"
  body_description :: "string option"
  body_id :: body_id
  file_part :: "upload option"

datatype json =
    JNull
  | JNumber nat
  | JString string
  | JArray "json list"
  | JObject "(string \<times> json) list"

datatype body = NoBody | Text string | Json json | SendFile string | DefaultPage

text \<open>
  A response: the status, the headers the handler sets itself (\<^verbatim>\<open>Allow\<close>,
  \<^verbatim>\<open>Content-Type\<close> of a photo) and the body.
\<close>

record response =
  status :: nat
  headers :: "(string \<times> string) list"
  body :: body

definition end_text :: "nat \<Rightarrow> string \<Rightarrow> response" where
  "end_text code msg = \<lparr>status = code, headers = [], body = Text msg\<rparr>"

definition send_json :: "nat \<Rightarrow> json \<Rightarrow> response" where
  "send_json code j = \<lparr>status = code, headers = [], body = Json j\<rparr>"

text \<open>The answer of every \<^verbatim>\<open>.all\<close> handler: \<^verbatim>\<open>Allow\<close> and 405.\<close>

definition method_not_allowed :: "string \<Rightarrow> response" where
  "method_not_allowed allow =
     \<lparr>status = 405, headers = [(''Allow'', allow)], body = Text ''Method Not Allowed''\<rparr>"

text \<open>
  What Express answers itself: 404 when no handler takes the request, 500 when a
  synchronous handler throws.
\<close>

definition express_not_found :: response where
  "express_not_found = \<lparr>status = 404, headers = [], body = DefaultPage\<rparr>"

definition express_uncaught :: response where
  "express_uncaught = \<lparr>status = 500, headers = [], body = DefaultPage\<rparr>"

text \<open>
  An \<^verbatim>\<open>OPTIONS\<close> request that no handler takes, on a path with handlers for other
  methods: Express answers 200 and lists those methods.
\<close>

definition express_options :: "string \<Rightarrow> response" where
  "express_options allow = \<lparr>status = 200, headers = [(''Allow'', allow)], body = Text allow\<rparr>"

text \<open>
  The effects a handler has, in the order it has them: the photo files written and
  unlinked, and the changes to the item records.
\<close>

datatype event =
    FileWritten string
  | FileUnlinked string
  | RecordCreated nat
  | FieldsUpdated jsnum
  | PhotoRecorded jsnum string
  | RecordDeleted jsnum

record disk =
  files :: "string set"
  trace :: "event list"

definition existsSync :: "string \<Rightarrow> 'a disk_scheme \<Rightarrow> bool" where
  "existsSync p st = (p \<in> files st)"

text \<open>\<^verbatim>\<open>fs.unlinkSync\<close> throws (\<open>None\<close>) when the file does not exist.\<close>

definition unlinkSync :: "string \<Rightarrow> 'a disk_scheme \<Rightarrow> 'a disk_scheme option" where
  "unlinkSync p st =
     (if p \<in> files st
      then Some (st\<lparr>files := files st - {p}, trace := trace st @ [FileUnlinked p]\<rparr>)
      else None)"

text \<open>\<^verbatim>\<open>cache\<close>, with no \<^verbatim>\<open>CACHE_PATH\<close> in the environment.\<close>

definition cache :: string where
  "cache = ''public/uploads''"

definition filename :: "upload \<Rightarrow> string" where
  "filename f = ''photo'' @ ''-'' @ uniqueSuffix f @ extname f"

definition file_path :: "upload \<Rightarrow> string" where
  "file_path f = cache @ ''/'' @ filename f"

text \<open>
  \<^verbatim>\<open>upload.single('photo')\<close> runs before the handler: it writes the file part, if there
  is one, to \<open>file_path\<close> and leaves that path in \<^verbatim>\<open>req.file.path\<close>. A body that multer
  rejects (a file part under another name, a disk error) is not modelled.
\<close>

definition upload_single :: "request \<Rightarrow> 'a disk_scheme \<Rightarrow> string option \<times> 'a disk_scheme" where
  "upload_single req st =
     (case file_part req of
        None \<Rightarrow> (None, st)
      | Some f \<Rightarrow>
          (Some (file_path f),
           st\<lparr>files := insert (file_path f) (files st),
              trace := trace st @ [FileWritten (file_path f)]\<rparr>))"

subsection \<open>Items as JSON\<close>

definition json_of_photo :: "string option \<Rightarrow> json" where
  "json_of_photo p = (case p of None \<Rightarrow> JNull | Some s \<Rightarrow> JString s)"

text \<open>\<^verbatim>\<open>res.json(device)\<close>: every property of the item, the path of the photo among them.\<close>

definition item_fields :: "item \<Rightarrow> (string \<times> json) list" where
  "item_fields d =
     [(''id'', JNumber (item_id d)),
      (''inventory_name'', JString (inventory_name d)),
      (''description'', JString (description d)),
      (''photo'', json_of_photo (photo d))]"

text \<open>\<^verbatim>\<open>photo ? `/inventory/${id}/photo` : null\<close>\<close>

definition photo_url :: "item \<Rightarrow> json" where
  "photo_url d = (if truthy (photo d) then JString (photo_url_of (item_id d)) else JNull)"

text \<open>\<^verbatim>\<open>{...device, photo_url: ...}\<close>\<close>

definition item_with_photo_url :: "item \<Rightarrow> json" where
  "item_with_photo_url d = JObject (item_fields d @ [(''photo_url'', photo_url d)])"

text \<open>The value of a property of a JSON object, \<open>None\<close> when it has no such property.\<close>

definition property :: "string \<Rightarrow> json \<Rightarrow> json option" where
  "property k j = (case j of JObject kvs \<Rightarrow> map_of kvs k | _ \<Rightarrow> None)"

definition response_property :: "string \<Rightarrow> response \<Rightarrow> json option" where
  "response_property k r = (case body r of Json j \<Rightarrow> property k j | _ \<Rightarrow> None)"

text \<open>\<^verbatim>\<open>Array.prototype.findIndex\<close>; \<open>None\<close> stands for \<^verbatim>\<open>-1\<close>.\<close>

fun findIndex :: "('a \<Rightarrow> bool) \<Rightarrow> 'a list \<Rightarrow> nat option" where
  "findIndex P [] = None"
| "findIndex P (x # xs) =
     (if P x then Some 0 else (case findIndex P xs of None \<Rightarrow> None | Some i \<Rightarrow> Some (Suc i)))"

text \<open>
  An assignment to a property of the object \<^verbatim>\<open>devices.find(...)\<close> returned: the first
  element that satisfies the test changes in place.
\<close>

fun update_first :: "('a \<Rightarrow> bool) \<Rightarrow> ('a \<Rightarrow> 'a) \<Rightarrow> 'a list \<Rightarrow> 'a list" where
  "update_first P f [] = []"
| "update_first P f (x # xs) = (if P x then f x # xs else x # update_first P f xs)"

text \<open>\<^verbatim>\<open>d.id === id\<close> for the number \<open>n\<close>.\<close>

definition has_id :: "jsnum \<Rightarrow> item \<Rightarrow> bool" where
  "has_id n d = (NonNegInt (item_id d) = n)"

section \<open>The in-memory variant\<close>

text \<open>\<^verbatim>\<open>let devices = []; let Id = 1;\<close> and the upload directory.\<close>

record mem_state = disk +
  devices :: "item list"
  Id_counter :: nat

definition mem_init :: mem_state where
  "mem_init = \<lparr>files = {}, trace = [], devices = [], Id_counter = 1\<rparr>"

text \<open>\<^verbatim>\<open>app.post('/register', upload.single('photo'), ...)\<close>\<close>

definition mem_register :: "request \<Rightarrow> mem_state \<Rightarrow> response \<times> mem_state" where
  "mem_register req st0 =
     (let (file, st) = upload_single req st0 in
      case body_inventory_name req of
        None \<Rightarrow> (end_text 400 ''The \"inventory_name\" field is required'', st)
      | Some name \<Rightarrow>
          if name = [] \<or> trim name = []
          then (end_text 400 ''The \"inventory_name\" field is required'', st)
          else
            let device = \<lparr>item_id = Id_counter st,
                          inventory_name = name,
                          description = (case body_description req of None \<Rightarrow> [] | Some d \<Rightarrow> d),
                          photo = file\<rparr>
            in (send_json 201 (JObject (item_fields device)),
                st\<lparr>trace := trace st @ [RecordCreated (item_id device)],
                   devices := devices st @ [device],
                   Id_counter := Id_counter st + 1\<rparr>))"

text \<open>\<^verbatim>\<open>app.get('/inventory', ...)\<close>\<close>

definition mem_list :: "mem_state \<Rightarrow> response \<times> mem_state" where
  "mem_list st = (send_json 200 (JArray (map item_with_photo_url (devices st))), st)"

text \<open>\<^verbatim>\<open>app.route('/inventory/:id').get\<close>\<close>

definition mem_get :: "request \<Rightarrow> mem_state \<Rightarrow> response \<times> mem_state" where
  "mem_get req st =
     (let id = Number (params_id req) in
      case find (has_id id) (devices st) of
        None \<Rightarrow> (end_text 404 ''No item with such ID'', st)
      | Some device \<Rightarrow> (send_json 200 (item_with_photo_url device), st))"

text \<open>\<^verbatim>\<open>app.route('/inventory/:id').put\<close>\<close>

definition assign_fields :: "string option \<Rightarrow> string option \<Rightarrow> item \<Rightarrow> item" where
  "assign_fields name descr device =
     (let d1 = (case name of
                  None \<Rightarrow> device
                | Some n \<Rightarrow> if n \<noteq> [] then device\<lparr>inventory_name := n\<rparr> else device)
      in case descr of
           None \<Rightarrow> d1
         | Some d \<Rightarrow> if d \<noteq> [] then d1\<lparr>description := d\<rparr> else d1)"

definition mem_put :: "request \<Rightarrow> mem_state \<Rightarrow> response \<times> mem_state" where
  "mem_put req st =
     (let id = Number (params_id req) in
      case find (has_id id) (devices st) of
        None \<Rightarrow> (end_text 404 ''No item with such ID'', st)
      | Some device \<Rightarrow>
          let device' = assign_fields (body_inventory_name req) (body_description req) device
          in (send_json 200 (JObject (item_fields device')),
              st\<lparr>trace := trace st @ [FieldsUpdated id],
                 devices := update_first (has_id id)
                   (assign_fields (body_inventory_name req) (body_description req)) (devices st)\<rparr>))"

text \<open>
  \<^verbatim>\<open>app.route('/inventory/:id').delete\<close>: the file is unlinked, then the element is
  spliced out of the array.
\<close>

definition mem_delete :: "request \<Rightarrow> mem_state \<Rightarrow> response \<times> mem_state" where
  "mem_delete req st =
     (let id = Number (params_id req) in
      case findIndex (has_id id) (devices st) of
        None \<Rightarrow> (end_text 404 ''Item not found'', st)
      | Some index \<Rightarrow>
          let device = devices st ! index;
              unlinked =
                (case photo device of
                   None \<Rightarrow> Some st
                 | Some p \<Rightarrow> if p \<noteq> [] \<and> existsSync p st then unlinkSync p st else Some st)
          in (case unlinked of
                None \<Rightarrow> (express_uncaught, st)
              | Some st1 \<Rightarrow>
                  (send_json 200 (JObject [(''deleted'', JObject (item_fields device))]),
                   st1\<lparr>trace := trace st1 @ [RecordDeleted id],
                       devices := take index (devices st1) @ drop (Suc index) (devices st1)\<rparr>)))"

text \<open>\<^verbatim>\<open>app.route('/inventory/:id/photo').get\<close>\<close>

definition mem_get_photo :: "request \<Rightarrow> mem_state \<Rightarrow> response \<times> mem_state" where
  "mem_get_photo req st =
     (let id = Number (params_id req) in
      case find (has_id id) (devices st) of
        None \<Rightarrow> (end_text 404 ''Item not found'', st)
      | Some device \<Rightarrow>
          (case photo device of
             None \<Rightarrow> (end_text 404 ''Photo not found'', st)
           | Some p \<Rightarrow>
               if p = [] \<or> \<not> existsSync p st then (end_text 404 ''Photo not found'', st)
               else (\<lparr>status = 200, headers = [(''Content-Type'', ''image/jpeg'')],
                      body = SendFile p\<rparr>, st)))"

text \<open>
  \<^verbatim>\<open>app.route('/inventory/:id/photo').put(upload.single('photo'), ...)\<close>: the old file is
  unlinked, then \<^verbatim>\<open>device.photo\<close> is assigned.
\<close>

definition mem_put_photo :: "request \<Rightarrow> mem_state \<Rightarrow> response \<times> mem_state" where
  "mem_put_photo req st0 =
     (let (file, st) = upload_single req st0;
          id = Number (params_id req)
      in case find (has_id id) (devices st) of
           None \<Rightarrow> (end_text 404 ''Item not found'', st)
         | Some device \<Rightarrow>
             (case file of
                None \<Rightarrow> (end_text 400 ''Photo file not sent'', st)
              | Some path \<Rightarrow>
                  let unlinked =
                        (case photo device of
                           None \<Rightarrow> Some st
                         | Some p \<Rightarrow>
                             if p \<noteq> [] \<and> existsSync p st then unlinkSync p st else Some st)
                  in (case unlinked of
                        None \<Rightarrow> (express_uncaught, st)
                      | Some st1 \<Rightarrow>
                          (send_json 200 (JObject (item_fields (device\<lparr>photo := Some path\<rparr>))),
                           st1\<lparr>trace := trace st1 @ [PhotoRecorded id path],
                               devices := update_first (has_id id) (\<lambda>d. d\<lparr>photo := Some path\<rparr>)
                                 (devices st1)\<rparr>))))"

text \<open>\<^verbatim>\<open>app.post('/search', ...)\<close>\<close>

definition mem_search :: "request \<Rightarrow> mem_state \<Rightarrow> response \<times> mem_state" where
  "mem_search req st =
     (let numericId = Number_of_id (body_id req) in
      if isNaN numericId then (end_text 400 ''Invalid ID'', st)
      else
        case find (has_id numericId) (devices st) of
          None \<Rightarrow> (end_text 404 ''Item not found'', st)
        | Some device \<Rightarrow>
            let result = [(''id'', JNumber (item_id device)),
                          (''inventory_name'', JString (inventory_name device)),
                          (''description'', JString (description device))]
            in (send_json 201
                  (JObject (if truthy (photo device)
                            then result @ [(''photo_url'', JString (photo_url_of (item_id device)))]
                            else result)),
                st))"

section \<open>The MySQL variant\<close>

text \<open>
  The table \<^verbatim>\<open>items(id INT AUTO_INCREMENT PRIMARY KEY, inventory_name, description, photo)\<close>
  is the list of its rows in primary-key order together with the next value of the
  counter; the column \<^verbatim>\<open>photo\<close> is \<^verbatim>\<open>NULL\<close> or a path. The script that creates the table
  inserts one row.
\<close>

record sql_state = disk +
  rows :: "item list"
  auto_increment :: nat

definition sql_init :: sql_state where
  "sql_init =
     \<lparr>files = {}, trace = [],
      rows = [\<lparr>item_id = 1, inventory_name = ''Docker Laptop'',
               description = ''Item initialized from MySQL script'', photo = None\<rparr>],
      auto_increment = 2\<rparr>"

text \<open>
  Every \<^verbatim>\<open>await pool.query(...)\<close> may throw. The environment decides it: \<open>Some (k, msg)\<close>
  says that the query number \<open>k\<close> of the request (counted from 0 in the order the handler
  issues them) throws an error with \<^verbatim>\<open>err.message = msg\<close>; \<open>None\<close> says that the database
  answers every query. A query whose \<^verbatim>\<open>WHERE id = ?\<close> gets a number that is no id of a row
  selects no row.
\<close>

type_synonym db_error = "(nat \<times> string) option"

definition throws :: "db_error \<Rightarrow> nat \<Rightarrow> string option" where
  "throws e k = (case e of None \<Rightarrow> None | Some (i, msg) \<Rightarrow> if i = k then Some msg else None)"

definition error_message :: "string \<Rightarrow> response" where
  "error_message msg = send_json 500 (JObject [(''error'', JString msg)])"

text \<open>\<^verbatim>\<open>SELECT ... FROM items WHERE id = ?\<close>\<close>

definition select_where_id :: "jsnum \<Rightarrow> sql_state \<Rightarrow> item list" where
  "select_where_id n st = filter (has_id n) (rows st)"

text \<open>\<^verbatim>\<open>{id, inventory_name, description, photo_url}\<close>\<close>

definition public_item :: "item \<Rightarrow> json" where
  "public_item d =
     JObject [(''id'', JNumber (item_id d)),
              (''inventory_name'', JString (inventory_name d)),
              (''description'', JString (description d)),
              (''photo_url'', photo_url d)]"

text \<open>
  \<^verbatim>\<open>app.post('/register', upload.single('photo'), ...)\<close>. The answer repeats
  \<^verbatim>\<open>description\<close> as the request gave it: JSON leaves an undefined property out.
\<close>

definition sql_register :: "db_error \<Rightarrow> request \<Rightarrow> sql_state \<Rightarrow> response \<times> sql_state" where
  "sql_register e req st0 =
     (let (photo_path, st) = upload_single req st0 in
      case body_inventory_name req of
        None \<Rightarrow> (end_text 400 ''The \"inventory_name\" field is required'', st)
      | Some name \<Rightarrow>
          if name = [] \<or> trim name = []
          then (end_text 400 ''The \"inventory_name\" field is required'', st)
          else
            (case throws e 0 of
               Some msg \<Rightarrow> (error_message ''Database error'', st)
             | None \<Rightarrow>
                 let insertId = auto_increment st;
                     row = \<lparr>item_id = insertId,
                            inventory_name = name,
                            description = (case body_description req of None \<Rightarrow> [] | Some d \<Rightarrow> d),
                            photo = photo_path\<rparr>;
                     newItem =
                       [(''id'', JNumber insertId), (''inventory_name'', JString name)] @
                       (case body_description req of
                          None \<Rightarrow> []
                        | Some d \<Rightarrow> [(''description'', JString d)]) @
                       [(''photo_url'',
                         if truthy photo_path then JString (photo_url_of insertId) else JNull)]
                 in (send_json 201 (JObject newItem),
                     st\<lparr>trace := trace st @ [RecordCreated insertId],
                        rows := rows st @ [row],
                        auto_increment := auto_increment st + 1\<rparr>)))"

text \<open>\<^verbatim>\<open>app.get('/inventory', ...)\<close>\<close>

definition sql_list :: "db_error \<Rightarrow> sql_state \<Rightarrow> response \<times> sql_state" where
  "sql_list e st =
     (case throws e 0 of
        Some msg \<Rightarrow> (error_message ''Database error'', st)
      | None \<Rightarrow> (send_json 200 (JArray (map public_item (rows st))), st))"

text \<open>\<^verbatim>\<open>app.route('/inventory/:id').get\<close>\<close>

definition sql_get :: "db_error \<Rightarrow> request \<Rightarrow> sql_state \<Rightarrow> response \<times> sql_state" where
  "sql_get e req st =
     (let id = Number (params_id req) in
      case throws e 0 of
        Some msg \<Rightarrow> (error_message msg, st)
      | None \<Rightarrow>
          (case select_where_id id st of
             [] \<Rightarrow> (end_text 404 ''No item with such ID'', st)
           | device # _ \<Rightarrow> (send_json 200 (item_with_photo_url device), st)))"

text \<open>
  \<^verbatim>\<open>app.route('/inventory/:id').put\<close>: the \<^verbatim>\<open>UPDATE\<close> sets the columns whose value in the
  body is truthy, and is issued only when there is one.
\<close>

definition sql_update_fields :: "string option \<Rightarrow> string option \<Rightarrow> jsnum \<Rightarrow> sql_state \<Rightarrow> sql_state" where
  "sql_update_fields name descr n st =
     st\<lparr>trace := trace st @ [FieldsUpdated n],
        rows := map (\<lambda>r. if has_id n r then assign_fields name descr r else r) (rows st)\<rparr>"

definition answer_first_row :: "item list \<Rightarrow> response" where
  "answer_first_row updated =
     (case updated of
        [] \<Rightarrow> \<lparr>status = 200, headers = [], body = NoBody\<rparr>
      | r # _ \<Rightarrow> send_json 200 (JObject (item_fields r)))"

definition sql_put :: "db_error \<Rightarrow> request \<Rightarrow> sql_state \<Rightarrow> response \<times> sql_state" where
  "sql_put e req st =
     (let id = Number (params_id req) in
      case throws e 0 of
        Some msg \<Rightarrow> (error_message msg, st)
      | None \<Rightarrow>
          (case select_where_id id st of
             [] \<Rightarrow> (end_text 404 ''No item with such ID'', st)
           | c # _ \<Rightarrow>
               if truthy (body_inventory_name req) \<or> truthy (body_description req) then
                 (case throws e 1 of
                    Some msg \<Rightarrow> (error_message msg, st)
                  | None \<Rightarrow>
                      let st1 = sql_update_fields (body_inventory_name req)
                                  (body_description req) id st
                      in (case throws e 2 of
                            Some msg \<Rightarrow> (error_message msg, st1)
                          | None \<Rightarrow> (answer_first_row (select_where_id id st1), st1)))
               else
                 (case throws e 1 of
                    Some msg \<Rightarrow> (error_message msg, st)
                  | None \<Rightarrow> (answer_first_row (select_where_id id st), st))))"

text \<open>
  \<^verbatim>\<open>app.route('/inventory/:id').delete\<close>: the row is deleted, then the file is unlinked.
  An exception of \<^verbatim>\<open>unlinkSync\<close> is caught like one of the database.
\<close>

definition sql_delete :: "db_error \<Rightarrow> request \<Rightarrow> sql_state \<Rightarrow> response \<times> sql_state" where
  "sql_delete e req st =
     (let id = Number (params_id req) in
      case throws e 0 of
        Some msg \<Rightarrow> (error_message msg, st)
      | None \<Rightarrow>
          (case select_where_id id st of
             [] \<Rightarrow> (end_text 404 ''Item not found'', st)
           | device # _ \<Rightarrow>
               (case throws e 1 of
                  Some msg \<Rightarrow> (error_message msg, st)
                | None \<Rightarrow>
                    let st1 = st\<lparr>trace := trace st @ [RecordDeleted id],
                                 rows := filter (\<lambda>r. \<not> has_id id r) (rows st)\<rparr>;
                        unlinked =
                          (case photo device of
                             None \<Rightarrow> Some st1
                           | Some p \<Rightarrow>
                               if p \<noteq> [] \<and> existsSync p st1 then unlinkSync p st1 else Some st1)
                    in (case unlinked of
                          None \<Rightarrow> (error_message ''ENOENT'', st1)
                        | Some st2 \<Rightarrow>
                            (send_json 200
                               (JObject [(''message'',
                                  JString (''Item '' @ string_of_nat (item_id device) @ '' deleted''))]),
                             st2)))))"

text \<open>\<^verbatim>\<open>app.route('/inventory/:id/photo').get\<close>\<close>

definition sql_get_photo :: "db_error \<Rightarrow> request \<Rightarrow> sql_state \<Rightarrow> response \<times> sql_state" where
  "sql_get_photo e req st =
     (let id = Number (params_id req) in
      case throws e 0 of
        Some msg \<Rightarrow> (\<lparr>status = 500, headers = [], body = NoBody\<rparr>, st)
      | None \<Rightarrow>
          (case select_where_id id st of
             [] \<Rightarrow> (end_text 404 ''Item not found'', st)
           | device # _ \<Rightarrow>
               (case photo device of
                  None \<Rightarrow> (end_text 404 ''Photo not found'', st)
                | Some p \<Rightarrow>
                    if p = [] \<or> \<not> existsSync p st then (end_text 404 ''Photo not found'', st)
                    else (\<lparr>status = 200, headers = [(''Content-Type'', ''image/jpeg'')],
                           body = SendFile p\<rparr>, st))))"

text \<open>
  \<^verbatim>\<open>app.route('/inventory/:id/photo').put(upload.single('photo'), ...)\<close>: without a row
  the uploaded file is unlinked; with one, the new path is written to the row and then
  the old file is unlinked.
\<close>

definition sql_put_photo :: "db_error \<Rightarrow> request \<Rightarrow> sql_state \<Rightarrow> response \<times> sql_state" where
  "sql_put_photo e req st0 =
     (let (file, st) = upload_single req st0;
          id = Number (params_id req)
      in case file of
           None \<Rightarrow> (end_text 400 ''Photo file not sent'', st)
         | Some path \<Rightarrow>
             (case throws e 0 of
                Some msg \<Rightarrow> (error_message msg, st)
              | None \<Rightarrow>
                  (case select_where_id id st of
                     [] \<Rightarrow>
                       (case unlinkSync path st of
                          None \<Rightarrow> (error_message ''ENOENT'', st)
                        | Some st1 \<Rightarrow> (end_text 404 ''Item not found'', st1))
                   | old # _ \<Rightarrow>
                       (case throws e 1 of
                          Some msg \<Rightarrow> (error_message msg, st)
                        | None \<Rightarrow>
                            let st1 = st\<lparr>trace := trace st @ [PhotoRecorded id path],
                                         rows := map (\<lambda>r. if has_id id r then r\<lparr>photo := Some path\<rparr>
                                                         else r) (rows st)\<rparr>;
                                unlinked =
                                  (case photo old of
                                     None \<Rightarrow> Some st1
                                   | Some p \<Rightarrow>
                                       if p \<noteq> [] \<and> existsSync p st1 then unlinkSync p st1
                                       else Some st1)
                            in (case unlinked of
                                  None \<Rightarrow> (error_message ''ENOENT'', st1)
                                | Some st2 \<Rightarrow>
                                    (case throws e 2 of
                                       Some msg \<Rightarrow> (error_message msg, st2)
                                     | None \<Rightarrow>
                                         (answer_first_row (select_where_id id st2), st2)))))))"

text \<open>\<^verbatim>\<open>app.post('/search', ...)\<close>\<close>

definition sql_search :: "db_error \<Rightarrow> request \<Rightarrow> sql_state \<Rightarrow> response \<times> sql_state" where
  "sql_search e req st =
     (let numericId = Number_of_id (body_id req) in
      if isNaN numericId then (end_text 400 ''Invalid ID'', st)
      else
        (case throws e 0 of
           Some msg \<Rightarrow> (error_message msg, st)
         | None \<Rightarrow>
             (case select_where_id numericId st of
                [] \<Rightarrow> (end_text 404 ''Item not found'', st)
              | device # _ \<Rightarrow> (send_json 201 (public_item device), st))))"

section \<open>Routing\<close>

text \<open>
  The paths the application registers handlers for. \<open>req_path\<close> is the list of the
  segments of the request's path, the literal ones in lower case (Express compares
  them without regard to case); \<^verbatim>\<open>:id\<close> takes any one segment.
\<close>

datatype route =
    Register
  | Inventory
  | InventoryId string
  | InventoryPhoto string
  | Search
  | Unrouted

fun route_of :: "string list \<Rightarrow> route" where
  "route_of [a] =
     (if a = ''register'' then Register
      else if a = ''inventory'' then Inventory
      else if a = ''search'' then Search
      else Unrouted)"
| "route_of [a, i] = (if a = ''inventory'' then InventoryId i else Unrouted)"
| "route_of [a, i, p] = (if a = ''inventory'' \<and> p = ''photo'' then InventoryPhoto i else Unrouted)"
| "route_of _ = Unrouted"

text \<open>
  Express tries the handlers in the order of their registration. A handler registered
  with \<^verbatim>\<open>get\<close> also takes \<^verbatim>\<open>HEAD\<close> requests when the route registers no \<^verbatim>\<open>head\<close> handler;
  \<^verbatim>\<open>all\<close> takes every method that is left. \<^verbatim>\<open>/search\<close> has a \<^verbatim>\<open>post\<close> handler only, so
  every other method on it falls through to Express itself: the automatic answer to
  \<^verbatim>\<open>OPTIONS\<close>, 404 otherwise. The static files and the Swagger pages, registered before
  the routes, are not part of the model.
\<close>

definition mem_app :: "request \<Rightarrow> mem_state \<Rightarrow> response \<times> mem_state" where
  "mem_app req st =
     (case route_of (req_path req) of
        Register \<Rightarrow>
          if req_method req = POST then mem_register req st
          else (method_not_allowed ''POST'', st)
      | Inventory \<Rightarrow>
          if req_method req = GET \<or> req_method req = HEAD then mem_list st
          else (method_not_allowed ''GET'', st)
      | InventoryId i \<Rightarrow>
          if req_method req = GET \<or> req_method req = HEAD then mem_get (req\<lparr>params_id := i\<rparr>) st
          else if req_method req = PUT then mem_put (req\<lparr>params_id := i\<rparr>) st
          else if req_method req = DELETE then mem_delete (req\<lparr>params_id := i\<rparr>) st
          else (method_not_allowed ''GET, PUT, DELETE'', st)
      | InventoryPhoto i \<Rightarrow>
          if req_method req = GET \<or> req_method req = HEAD
          then mem_get_photo (req\<lparr>params_id := i\<rparr>) st
          else if req_method req = PUT then mem_put_photo (req\<lparr>params_id := i\<rparr>) st
          else (method_not_allowed ''GET, PUT'', st)
      | Search \<Rightarrow>
          if req_method req = POST then mem_search req st
          else if req_method req = OPTIONS then (express_options ''POST'', st)
          else (express_not_found, st)
      | Unrouted \<Rightarrow> (express_not_found, st))"

definition sql_app :: "db_error \<Rightarrow> request \<Rightarrow> sql_state \<Rightarrow> response \<times> sql_state" where
  "sql_app e req st =
     (case route_of (req_path req) of
        Register \<Rightarrow>
          if req_method req = POST then sql_register e req st
          else (method_not_allowed ''POST'', st)
      | Inventory \<Rightarrow>
          if req_method req = GET \<or> req_method req = HEAD then sql_list e st
          else (method_not_allowed ''GET'', st)
      | InventoryId i \<Rightarrow>
          if req_method req = GET \<or> req_method req = HEAD
          then sql_get e (req\<lparr>params_id := i\<rparr>) st
          else if req_method req = PUT then sql_put e (req\<lparr>params_id := i\<rparr>) st
          else if req_method req = DELETE then sql_delete e (req\<lparr>params_id := i\<rparr>) st
          else (method_not_allowed ''GET, PUT, DELETE'', st)
      | InventoryPhoto i \<Rightarrow>
          if req_method req = GET \<or> req_method req = HEAD
          then sql_get_photo e (req\<lparr>params_id := i\<rparr>) st
          else if req_method req = PUT then sql_put_photo e (req\<lparr>params_id := i\<rparr>) st
          else (method_not_allowed ''GET, PUT'', st)
      | Search \<Rightarrow>
          if req_method req = POST then sql_search e req st
          else if req_method req = OPTIONS then (express_options ''POST'', st)
          else (express_not_found, st)
      | Unrouted \<Rightarrow> (express_not_found, st))"

section \<open>The consistency of items and files\<close>

text \<open>The photo references of the items, in order.\<close>

fun photo_refs :: "item list \<Rightarrow> string list" where
  "photo_refs [] = []"
| "photo_refs (d # ds) = (case photo d of None \<Rightarrow> photo_refs ds | Some p \<Rightarrow> p # photo_refs ds)"

text \<open>
  No dangling reference: every photo reference names a file that exists. No orphan:
  every file is the photo of some item.
\<close>

definition no_dangling :: "item list \<Rightarrow> string set \<Rightarrow> bool" where
  "no_dangling ds fs = (set (photo_refs ds) \<subseteq> fs)"

definition no_orphans :: "item list \<Rightarrow> string set \<Rightarrow> bool" where
  "no_orphans ds fs = (fs \<subseteq> set (photo_refs ds))"

section \<open>Example requests and states\<close>

definition no_fields :: request where
  "no_fields =
     \<lparr>req_method = GET, req_path = [], params_id = [], body_inventory_name = None,
      body_description = None, body_id = IdUndefined, file_part = None\<rparr>"

definition photoA :: upload where
  "photoA = \<lparr>uniqueSuffix = ''1700000000000-1'', extname = ''.jpg''\<rparr>"

definition photoB :: upload where
  "photoB = \<lparr>uniqueSuffix = ''1700000000001-2'', extname = ''.png''\<rparr>"

text \<open>\<^verbatim>\<open>POST /register\<close> with the name Laptop, the description Dell and a photo.\<close>

definition register_laptop :: request where
  "register_laptop =
     no_fields\<lparr>req_method := POST, req_path := [''register''],
               body_inventory_name := Some ''Laptop'', body_description := Some ''Dell'',
               file_part := Some photoA\<rparr>"

text \<open>The states after that request: the laptop has id 1 in memory and id 2 in the table.\<close>

definition mem_with_laptop :: mem_state where
  "mem_with_laptop = snd (mem_app register_laptop mem_init)"

definition sql_with_laptop :: sql_state where
  "sql_with_laptop = snd (sql_app None register_laptop sql_init)"

text \<open>A request that names the item \<open>i\<close> in its path.\<close>

definition on_item :: "http_method \<Rightarrow> string \<Rightarrow> request" where
  "on_item m i = no_fields\<lparr>req_method := m, req_path := [''inventory'', i], params_id := i\<rparr>"

definition on_photo :: "http_method \<Rightarrow> string \<Rightarrow> request" where
  "on_photo m i =
     no_fields\<lparr>req_method := m, req_path := [''inventory'', i, ''photo''], params_id := i\<rparr>"

text \<open>\<^verbatim>\<open>PUT /inventory/i\<close> with the name Notebook and an empty description.\<close>

definition rename_laptop :: "string \<Rightarrow> request" where
  "rename_laptop i =
     (on_item PUT i)\<lparr>body_inventory_name := Some ''Notebook'', body_description := Some []\<rparr>"

text \<open>\<^verbatim>\<open>POST /search\<close> with the id \<open>v\<close> in the body.\<close>

definition search_for :: "body_id \<Rightarrow> request" where
  "search_for v = no_fields\<lparr>req_method := POST, req_path := [''search''], body_id := v\<rparr>"

text \<open>\<^verbatim>\<open>POST /register\<close> with a name of three spaces and a photo.\<close>

definition blank_registration :: request where
  "blank_registration = register_laptop\<lparr>body_inventory_name := Some ''   ''\<rparr>"

text \<open>\<^verbatim>\<open>PUT /inventory/i/photo\<close> with a photo.\<close>

definition replace_photo :: "string \<Rightarrow> request" where
  "replace_photo i = (on_photo PUT i)\<lparr>file_part := Some photoB\<rparr>"

text \<open>\<^verbatim>\<open>GET /search\<close> and \<^verbatim>\<open>GET /register\<close>.\<close>

definition get_search :: request where
  "get_search = no_fields\<lparr>req_method := GET, req_path := [''search'']\<rparr>"

definition get_register :: request where
  "get_register = no_fields\<lparr>req_method := GET, req_path := [''register'']\<rparr>"

text \<open>An error of the database at the first query of a request.\<close>

definition first_query_fails :: db_error where
  "first_query_fails = Some (0, ''connect ECONNREFUSED'')"

section \<open>Notions of the specification\<close>

text \<open>
  A partial update, in the words of the specification: a provided, non-empty value
  replaces the stored one; an omitted or empty one leaves it; the id and the photo
  reference stay.
\<close>

definition partially_updated :: "string option \<Rightarrow> string option \<Rightarrow> item \<Rightarrow> item \<Rightarrow> bool" where
  "partially_updated name descr old new =
     (item_id new = item_id old \<and> photo new = photo old
      \<and> inventory_name new = (case name of None \<Rightarrow> inventory_name old
                                | Some n \<Rightarrow> if n = [] then inventory_name old else n)
      \<and> description new = (case descr of None \<Rightarrow> description old
                             | Some t \<Rightarrow> if t = [] then description old else t))"




section \<open>Reachable states of the in-memory variant\<close>

text \<open>The states the application is in after any sequence of requests.\<close>

inductive mem_reachable :: "mem_state \<Rightarrow> bool" where
  initial: "mem_reachable mem_init"
| request: "mem_reachable m \<Longrightarrow> mem_reachable (snd (mem_app req m))"

text \<open>No two items share an id, and the counter is above every id in use.\<close>

definition ids_fresh :: "item list \<Rightarrow> nat \<Rightarrow> bool" where
  "ids_fresh ds c = (distinct (map item_id ds) \<and> list_all (\<lambda>d. item_id d < c) ds)"

section \<open>Evaluating the examples\<close>

lemmas trim_defs = trim_def space1_def space2_def space3_def

lemmas parse_defs = Number_def trim_defs signed_decimal_def unsigned_decimal_def
  is_digit_def exponent_part_def digits_value_def digit_value_def radix_literal_def
  is_radix_digit_def

lemmas double_defs = number_value_def floor_log2_def bit_length.simps

lemma Number_1: "Number ''1'' = NonNegInt 1"
  apply (simp add: parse_defs)
  apply (simp add: double_defs)
  apply (simp add: round_half_even_def)
  done

lemma Number_2: "Number ''2'' = NonNegInt 2"
  apply (simp add: parse_defs)
  apply (simp add: double_defs)
  apply (simp add: round_half_even_def)
  done

lemma Number_7: "Number ''7'' = NonNegInt 7"
  apply (simp add: parse_defs)
  apply (simp add: double_defs)
  apply (simp add: round_half_even_def)
  done



text \<open>
  White space beyond ASCII is stripped, and a literal is rounded to the nearest double:
  U+00A0 before the digit 1, and a literal that is not a double.
\<close>

lemma trim_no_break_space: "trim [CHR 0xC2, CHR 0xA0] = []"
  by (simp add: trim_defs)

lemma Number_after_no_break_space: "Number [CHR 0xC2, CHR 0xA0, CHR ''1''] = NonNegInt 1"
  apply (simp add: parse_defs)
  apply (simp add: double_defs)
  apply (simp add: round_half_even_def)
  done

lemma Number_rounds_to_one: "Number ''1.0000000000000000000000001'' = NonNegInt 1"
  apply (simp add: parse_defs)
  apply (simp add: double_defs)
  apply (simp add: round_half_even_def)
  done

lemma Number_rounds_to_even: "Number ''9007199254740993'' = NonNegInt 9007199254740992"
  apply (simp add: parse_defs)
  apply (simp add: double_defs)
  apply (simp add: round_half_even_def)
  done

lemma file_path_photoA: "file_path photoA = ''public/uploads/photo-1700000000000-1.jpg''"
  by (simp add: file_path_def filename_def cache_def photoA_def)

lemma file_path_photoB: "file_path photoB = ''public/uploads/photo-1700000000001-2.png''"
  by (simp add: file_path_def filename_def cache_def photoB_def)

lemma mem_with_laptop_eq:
  "mem_with_laptop =
     \<lparr>files = {''public/uploads/photo-1700000000000-1.jpg''},
      trace = [FileWritten ''public/uploads/photo-1700000000000-1.jpg'', RecordCreated 1],
      devices = [\<lparr>item_id = 1, inventory_name = ''Laptop'', description = ''Dell'',
                  photo = Some ''public/uploads/photo-1700000000000-1.jpg''\<rparr>],
      Id_counter = 2\<rparr>"
  by (simp add: mem_with_laptop_def mem_app_def register_laptop_def no_fields_def mem_register_def
        upload_single_def file_path_photoA mem_init_def trim_defs Let_def)

lemma sql_with_laptop_eq:
  "sql_with_laptop =
     \<lparr>files = {''public/uploads/photo-1700000000000-1.jpg''},
      trace = [FileWritten ''public/uploads/photo-1700000000000-1.jpg'', RecordCreated 2],
      rows = [\<lparr>item_id = 1, inventory_name = ''Docker Laptop'',
                description = ''Item initialized from MySQL script'', photo = None\<rparr>,
              \<lparr>item_id = 2, inventory_name = ''Laptop'', description = ''Dell'',
                photo = Some ''public/uploads/photo-1700000000000-1.jpg''\<rparr>],
      auto_increment = 3\<rparr>"
  by (simp add: sql_with_laptop_def sql_app_def register_laptop_def no_fields_def sql_register_def
        upload_single_def file_path_photoA sql_init_def trim_defs throws_def Let_def)

text \<open>
  A name that is one U+00A0 is rejected like a name of spaces, and a search for a literal
  that rounds to 1 finds the item with the id 1.
\<close>

lemma no_break_space_name_is_rejected:
  "status (fst (mem_register (register_laptop\<lparr>body_inventory_name := Some [CHR 0xC2, CHR 0xA0]\<rparr>)
                  mem_init)) = 400
   \<and> status (fst (sql_register None
                    (register_laptop\<lparr>body_inventory_name := Some [CHR 0xC2, CHR 0xA0]\<rparr>)
                    sql_init)) = 400"
  by (simp add: mem_register_def sql_register_def register_laptop_def no_fields_def
        upload_single_def trim_defs end_text_def)

lemma search_for_rounded_literal_finds_item:
  "status (fst (mem_search (search_for (IdString ''1.0000000000000000000000001''))
                  mem_with_laptop)) = 201"
  by (simp add: mem_search_def search_for_def no_fields_def Number_of_id_def
        Number_rounds_to_one isNaN_def mem_with_laptop_eq has_id_def send_json_def Let_def)

section \<open>What the answers of GET, PUT and search hold\<close>

lemma item_id_assign_fields: "item_id (assign_fields a b d) = item_id d"
  by (simp add: assign_fields_def split: option.splits)

lemma photo_assign_fields: "photo (assign_fields a b d) = photo d"
  by (simp add: assign_fields_def split: option.splits)

lemma has_id_assign_fields: "has_id n (assign_fields a b d) = has_id n d"
  by (simp add: has_id_def item_id_assign_fields)

lemma filter_has_id_map_assign:
  "filter (has_id n) (map (\<lambda>r. if has_id n r then assign_fields a b r else r) xs)
   = map (assign_fields a b) (filter (has_id n) xs)"
  by (induction xs) (simp_all add: has_id_assign_fields)

lemma select_after_update:
  "select_where_id n (sql_update_fields a b n st) = map (assign_fields a b) (select_where_id n st)"
  by (simp add: select_where_id_def sql_update_fields_def filter_has_id_map_assign)

lemma property_photo_item_fields:
  "map_of (item_fields d) ''photo'' = Some (json_of_photo (photo d))"
  by (simp add: item_fields_def)

lemma property_photo_url_item_fields: "map_of (item_fields d) ''photo_url'' = None"
  by (simp add: item_fields_def)

lemma property_photo_with_url:
  "property ''photo'' (item_with_photo_url d) = Some (json_of_photo (photo d))"
  by (simp add: property_def item_with_photo_url_def item_fields_def)

lemma property_photo_url_with_url:
  "property ''photo_url'' (item_with_photo_url d) = Some (photo_url d)"
  by (simp add: property_def item_with_photo_url_def item_fields_def)

lemma mem_get_photo_field:
  assumes "find (has_id (Number (params_id req))) (devices m) = Some d"
  shows "status (fst (mem_get req m)) = 200
       \<and> response_property ''photo'' (fst (mem_get req m)) = Some (json_of_photo (photo d))
       \<and> response_property ''photo_url'' (fst (mem_get req m)) = Some (photo_url d)"
  using assms
  by (simp add: mem_get_def send_json_def response_property_def
        property_photo_with_url property_photo_url_with_url)

lemma mem_put_photo_field:
  assumes "find (has_id (Number (params_id req))) (devices m) = Some d"
  shows "status (fst (mem_put req m)) = 200
       \<and> response_property ''photo'' (fst (mem_put req m)) = Some (json_of_photo (photo d))
       \<and> response_property ''photo_url'' (fst (mem_put req m)) = None"
  using assms
  by (simp add: mem_put_def send_json_def response_property_def property_def Let_def
        property_photo_item_fields property_photo_url_item_fields photo_assign_fields)

lemma sql_get_photo_field:
  assumes "select_where_id (Number (params_id req)) s = d # ds"
  shows "status (fst (sql_get None req s)) = 200
       \<and> response_property ''photo'' (fst (sql_get None req s)) = Some (json_of_photo (photo d))
       \<and> response_property ''photo_url'' (fst (sql_get None req s)) = Some (photo_url d)"
  using assms
  by (simp add: sql_get_def throws_def send_json_def response_property_def
        property_photo_with_url property_photo_url_with_url)

lemma sql_put_photo_field:
  assumes "select_where_id (Number (params_id req)) s = d # ds"
  shows "status (fst (sql_put None req s)) = 200
       \<and> response_property ''photo'' (fst (sql_put None req s)) = Some (json_of_photo (photo d))
       \<and> response_property ''photo_url'' (fst (sql_put None req s)) = None"
  using assms
  by (simp add: sql_put_def throws_def send_json_def response_property_def property_def Let_def
        answer_first_row_def select_after_update
        property_photo_item_fields property_photo_url_item_fields photo_assign_fields)

lemma mem_search_no_photo_field:
  "response_property ''photo'' (fst (mem_search req m)) = None"
  by (simp add: mem_search_def Let_def end_text_def send_json_def response_property_def
        property_def split: option.splits)

lemma sql_search_no_photo_field:
  "response_property ''photo'' (fst (sql_search e req s)) = None"
  by (simp add: sql_search_def Let_def end_text_def send_json_def response_property_def
        property_def error_message_def public_item_def split: option.splits list.splits)

text \<open>
  Claim C10. For an item whose photo reference is set (\<open>photo d = Some p\<close>), the
  successful answers of GetById (\<^verbatim>\<open>GET /inventory/:id\<close>) and of UpdateFields
  (\<^verbatim>\<open>PUT /inventory/:id\<close>) carry the storage path \<open>p\<close> in a property \<^verbatim>\<open>photo\<close>: next to
  \<^verbatim>\<open>photo_url\<close> in the answer of GET, with no \<^verbatim>\<open>photo_url\<close> in the answer of PUT. The
  answer of SearchById never has a property \<^verbatim>\<open>photo\<close>. This holds in both variants; in
  the MySQL variant for the requests whose queries the database answers.
\<close>

theorem raw_photo_path_in_get_and_put_answers:
  assumes "photo d = Some p"
  shows "(find (has_id (Number (params_id req))) (devices m) = Some d \<longrightarrow>
            status (fst (mem_get req m)) = 200
          \<and> response_property ''photo'' (fst (mem_get req m)) = Some (JString p)
          \<and> response_property ''photo_url'' (fst (mem_get req m)) = Some (photo_url d)
          \<and> status (fst (mem_put req m)) = 200
          \<and> response_property ''photo'' (fst (mem_put req m)) = Some (JString p)
          \<and> response_property ''photo_url'' (fst (mem_put req m)) = None)
       \<and> (select_where_id (Number (params_id req)) s = d # ds \<longrightarrow>
            status (fst (sql_get None req s)) = 200
          \<and> response_property ''photo'' (fst (sql_get None req s)) = Some (JString p)
          \<and> response_property ''photo_url'' (fst (sql_get None req s)) = Some (photo_url d)
          \<and> status (fst (sql_put None req s)) = 200
          \<and> response_property ''photo'' (fst (sql_put None req s)) = Some (JString p)
          \<and> response_property ''photo_url'' (fst (sql_put None req s)) = None)
       \<and> response_property ''photo'' (fst (mem_search req m)) = None
       \<and> response_property ''photo'' (fst (sql_search e req s)) = None"
proof -
  have j: "json_of_photo (photo d) = JString p"
    using assms by (simp add: json_of_photo_def)
  have mem: "find (has_id (Number (params_id req))) (devices m) = Some d \<Longrightarrow>
            status (fst (mem_get req m)) = 200
          \<and> response_property ''photo'' (fst (mem_get req m)) = Some (JString p)
          \<and> response_property ''photo_url'' (fst (mem_get req m)) = Some (photo_url d)
          \<and> status (fst (mem_put req m)) = 200
          \<and> response_property ''photo'' (fst (mem_put req m)) = Some (JString p)
          \<and> response_property ''photo_url'' (fst (mem_put req m)) = None"
    using mem_get_photo_field [of req m d] mem_put_photo_field [of req m d] j by simp
  have sql: "select_where_id (Number (params_id req)) s = d # ds \<Longrightarrow>
            status (fst (sql_get None req s)) = 200
          \<and> response_property ''photo'' (fst (sql_get None req s)) = Some (JString p)
          \<and> response_property ''photo_url'' (fst (sql_get None req s)) = Some (photo_url d)
          \<and> status (fst (sql_put None req s)) = 200
          \<and> response_property ''photo'' (fst (sql_put None req s)) = Some (JString p)
          \<and> response_property ''photo_url'' (fst (sql_put None req s)) = None"
    using sql_get_photo_field [of req s d ds] sql_put_photo_field [of req s d ds] j by simp
  show ?thesis
    using mem sql mem_search_no_photo_field [of req m] sql_search_no_photo_field [of e req s]
    by blast
qed

theorem raw_photo_path_in_get_and_put_answers_witness:
  "response_property ''photo'' (fst (mem_get (on_item GET ''1'') mem_with_laptop))
     = Some (JString ''public/uploads/photo-1700000000000-1.jpg'')
   \<and> response_property ''photo'' (fst (mem_put (on_item PUT ''1'') mem_with_laptop))
     = Some (JString ''public/uploads/photo-1700000000000-1.jpg'')
   \<and> response_property ''photo_url'' (fst (mem_put (on_item PUT ''1'') mem_with_laptop)) = None
   \<and> response_property ''photo'' (fst (sql_get None (on_item GET ''2'') sql_with_laptop))
     = Some (JString ''public/uploads/photo-1700000000000-1.jpg'')
   \<and> response_property ''photo'' (fst (sql_put None (on_item PUT ''2'') sql_with_laptop))
     = Some (JString ''public/uploads/photo-1700000000000-1.jpg'')
   \<and> response_property ''photo'' (fst (mem_search (on_item PUT ''1'') mem_with_laptop)) = None"
proof -
  let ?d1 = "\<lparr>item_id = 1, inventory_name = ''Laptop'', description = ''Dell'',
              photo = Some ''public/uploads/photo-1700000000000-1.jpg''\<rparr>"
  let ?d2 = "\<lparr>item_id = 2, inventory_name = ''Laptop'', description = ''Dell'',
              photo = Some ''public/uploads/photo-1700000000000-1.jpg''\<rparr>"
  have m: "find (has_id (Number (params_id (on_item m ''1'')))) (devices mem_with_laptop) = Some ?d1"
    for m
    by (simp add: on_item_def no_fields_def Number_1 mem_with_laptop_eq has_id_def)
  have s: "select_where_id (Number (params_id (on_item m ''2''))) sql_with_laptop = ?d2 # []"
    for m
    by (simp add: on_item_def no_fields_def Number_2 sql_with_laptop_eq has_id_def
          select_where_id_def)
  have p1: "photo ?d1 = Some ''public/uploads/photo-1700000000000-1.jpg''" by simp
  have p2: "photo ?d2 = Some ''public/uploads/photo-1700000000000-1.jpg''" by simp
  show ?thesis
    using raw_photo_path_in_get_and_put_answers
            [OF p1, where req = "on_item GET ''1''" and m = mem_with_laptop]
      raw_photo_path_in_get_and_put_answers
            [OF p1, where req = "on_item PUT ''1''" and m = mem_with_laptop]
      raw_photo_path_in_get_and_put_answers
            [OF p2, where req = "on_item GET ''2''" and s = sql_with_laptop and ds = "[]"]
      raw_photo_path_in_get_and_put_answers
            [OF p2, where req = "on_item PUT ''2''" and s = sql_with_laptop and ds = "[]"]
      m s
    by simp
qed

section \<open>UpdateFields\<close>

lemma assign_fields_partially_updated: "partially_updated a b d (assign_fields a b d)"
  by (simp add: partially_updated_def assign_fields_def split: option.splits)

lemma assign_fields_nothing: "\<not> truthy a \<Longrightarrow> \<not> truthy b \<Longrightarrow> assign_fields a b d = d"
  by (simp add: assign_fields_def truthy_def split: option.splits)

lemma find_update_first:
  "find P xs = Some d \<Longrightarrow> P (f d) \<Longrightarrow> find P (update_first P f xs) = Some (f d)"
  by (induction xs) (auto split: if_splits)

lemma mem_put_absent:
  assumes "find (has_id (Number (params_id req))) (devices m) = None"
  shows "status (fst (mem_put req m)) = 404 \<and> snd (mem_put req m) = m"
  using assms by (simp add: mem_put_def end_text_def)

lemma mem_put_present:
  assumes "find (has_id (Number (params_id req))) (devices m) = Some d"
  shows "status (fst (mem_put req m)) = 200
       \<and> body (fst (mem_put req m))
           = Json (JObject (item_fields (assign_fields (body_inventory_name req) (body_description req) d)))
       \<and> find (has_id (Number (params_id req))) (devices (snd (mem_put req m)))
           = Some (assign_fields (body_inventory_name req) (body_description req) d)
       \<and> files (snd (mem_put req m)) = files m"
proof -
  have "has_id (Number (params_id req)) d"
    using assms by (auto simp: find_Some_iff)
  then have "has_id (Number (params_id req))
               (assign_fields (body_inventory_name req) (body_description req) d)"
    by (simp add: has_id_assign_fields)
  then show ?thesis
    using assms by (simp add: mem_put_def send_json_def Let_def find_update_first)
qed

lemma sql_put_absent:
  assumes "select_where_id (Number (params_id req)) s = []"
  shows "status (fst (sql_put None req s)) = 404 \<and> snd (sql_put None req s) = s"
  using assms by (simp add: sql_put_def end_text_def throws_def)

lemma sql_put_present:
  assumes "select_where_id (Number (params_id req)) s = d # ds"
  shows "status (fst (sql_put None req s)) = 200
       \<and> body (fst (sql_put None req s))
           = Json (JObject (item_fields (assign_fields (body_inventory_name req) (body_description req) d)))
       \<and> select_where_id (Number (params_id req)) (snd (sql_put None req s))
           = map (assign_fields (body_inventory_name req) (body_description req)) (d # ds)
       \<and> files (snd (sql_put None req s)) = files s"
proof (cases "truthy (body_inventory_name req) \<or> truthy (body_description req)")
  case True
  then show ?thesis
    using assms
    by (simp add: sql_put_def throws_def send_json_def Let_def answer_first_row_def
          select_after_update) (simp add: sql_update_fields_def)
next
  case False
  then have "assign_fields (body_inventory_name req) (body_description req) = (\<lambda>d. d)"
    by (auto simp: assign_fields_nothing)
  then show ?thesis
    using assms False
    by (simp add: sql_put_def throws_def send_json_def Let_def answer_first_row_def)
qed

text \<open>
  Claim C7. UpdateFields (\<^verbatim>\<open>PUT /inventory/:id\<close>) on an item that exists answers 200 with
  the item after a partial update: a provided non-empty name or description replaces
  the stored value exactly, an omitted or empty one leaves the stored value (so an empty
  description leaves the description), and the id and the photo reference stay. On an id
  with no item it answers 404 and changes nothing. Both variants; in the MySQL variant
  for the requests whose queries the database answers.
\<close>

theorem update_fields_is_partial_update:
  "(find (has_id (Number (params_id req))) (devices m) = None \<longrightarrow>
      status (fst (mem_put req m)) = 404 \<and> snd (mem_put req m) = m)
   \<and> (find (has_id (Number (params_id req))) (devices m) = Some d \<longrightarrow>
        status (fst (mem_put req m)) = 200
      \<and> (\<exists>d'. find (has_id (Number (params_id req))) (devices (snd (mem_put req m))) = Some d'
              \<and> body (fst (mem_put req m)) = Json (JObject (item_fields d'))
              \<and> partially_updated (body_inventory_name req) (body_description req) d d'))
   \<and> (select_where_id (Number (params_id req)) s = [] \<longrightarrow>
        status (fst (sql_put None req s)) = 404 \<and> snd (sql_put None req s) = s)
   \<and> (select_where_id (Number (params_id req)) s = r # rs \<longrightarrow>
        status (fst (sql_put None req s)) = 200
      \<and> (\<exists>r' rs'. select_where_id (Number (params_id req)) (snd (sql_put None req s)) = r' # rs'
              \<and> body (fst (sql_put None req s)) = Json (JObject (item_fields r'))
              \<and> partially_updated (body_inventory_name req) (body_description req) r r'))"
proof (intro conjI impI)
  assume "find (has_id (Number (params_id req))) (devices m) = None"
  then show "status (fst (mem_put req m)) = 404" "snd (mem_put req m) = m"
    using mem_put_absent [of req m] by simp_all
next
  assume h: "find (has_id (Number (params_id req))) (devices m) = Some d"
  show "status (fst (mem_put req m)) = 200"
    using mem_put_present [OF h] by simp
  show "\<exists>d'. find (has_id (Number (params_id req))) (devices (snd (mem_put req m))) = Some d'
              \<and> body (fst (mem_put req m)) = Json (JObject (item_fields d'))
              \<and> partially_updated (body_inventory_name req) (body_description req) d d'"
    using mem_put_present [OF h] assign_fields_partially_updated by blast
next
  assume "select_where_id (Number (params_id req)) s = []"
  then show "status (fst (sql_put None req s)) = 404" "snd (sql_put None req s) = s"
    using sql_put_absent [of req s] by simp_all
next
  assume h: "select_where_id (Number (params_id req)) s = r # rs"
  show "status (fst (sql_put None req s)) = 200"
    using sql_put_present [OF h] by simp
  show "\<exists>r' rs'. select_where_id (Number (params_id req)) (snd (sql_put None req s)) = r' # rs'
              \<and> body (fst (sql_put None req s)) = Json (JObject (item_fields r'))
              \<and> partially_updated (body_inventory_name req) (body_description req) r r'"
    using sql_put_present [OF h] assign_fields_partially_updated by auto
qed

theorem update_fields_is_partial_update_witness:
  "status (fst (mem_put (rename_laptop ''1'') mem_with_laptop)) = 200
   \<and> (\<exists>d'. find (has_id (NonNegInt 1)) (devices (snd (mem_put (rename_laptop ''1'') mem_with_laptop)))
             = Some d'
          \<and> inventory_name d' = ''Notebook'' \<and> description d' = ''Dell'')
   \<and> status (fst (mem_put (rename_laptop ''7'') mem_with_laptop)) = 404
   \<and> status (fst (sql_put None (rename_laptop ''2'') sql_with_laptop)) = 200
   \<and> (\<exists>r' rs'. select_where_id (NonNegInt 2) (snd (sql_put None (rename_laptop ''2'') sql_with_laptop))
             = r' # rs'
          \<and> inventory_name r' = ''Notebook'' \<and> description r' = ''Dell'')
   \<and> status (fst (sql_put None (rename_laptop ''7'') sql_with_laptop)) = 404"
proof -
  let ?d1 = "\<lparr>item_id = 1, inventory_name = ''Laptop'', description = ''Dell'',
              photo = Some ''public/uploads/photo-1700000000000-1.jpg''\<rparr>"
  let ?d2 = "\<lparr>item_id = 2, inventory_name = ''Laptop'', description = ''Dell'',
              photo = Some ''public/uploads/photo-1700000000000-1.jpg''\<rparr>"
  have n1: "Number (params_id (rename_laptop ''1'')) = NonNegInt 1"
    by (simp add: rename_laptop_def on_item_def no_fields_def Number_1)
  have n2: "Number (params_id (rename_laptop ''2'')) = NonNegInt 2"
    by (simp add: rename_laptop_def on_item_def no_fields_def Number_2)
  have n7: "Number (params_id (rename_laptop ''7'')) = NonNegInt 7"
    by (simp add: rename_laptop_def on_item_def no_fields_def Number_7)
  have m1: "find (has_id (Number (params_id (rename_laptop ''1'')))) (devices mem_with_laptop)
            = Some ?d1"
    by (simp add: n1 mem_with_laptop_eq has_id_def)
  have m7: "find (has_id (Number (params_id (rename_laptop ''7'')))) (devices mem_with_laptop)
            = None"
    by (simp add: n7 mem_with_laptop_eq has_id_def)
  have s2: "select_where_id (Number (params_id (rename_laptop ''2''))) sql_with_laptop = ?d2 # []"
    by (simp add: n2 sql_with_laptop_eq has_id_def select_where_id_def)
  have s7: "select_where_id (Number (params_id (rename_laptop ''7''))) sql_with_laptop = []"
    by (simp add: n7 sql_with_laptop_eq has_id_def select_where_id_def)
  have fields: "body_inventory_name (rename_laptop i) = Some ''Notebook''"
    "body_description (rename_laptop i) = Some []" for i
    by (simp_all add: rename_laptop_def on_item_def no_fields_def)
  note inst = update_fields_is_partial_update
    [where m = mem_with_laptop and d = ?d1 and s = sql_with_laptop and r = ?d2 and rs = "[]"]
  have a: "status (fst (mem_put (rename_laptop ''1'') mem_with_laptop)) = 200
      \<and> (\<exists>d'. find (has_id (NonNegInt 1))
                  (devices (snd (mem_put (rename_laptop ''1'') mem_with_laptop))) = Some d'
            \<and> inventory_name d' = ''Notebook'' \<and> description d' = ''Dell'')"
    using inst [where req = "rename_laptop ''1''"] m1
    by (simp add: n1 fields partially_updated_def) blast
  have b: "status (fst (mem_put (rename_laptop ''7'') mem_with_laptop)) = 404
      \<and> status (fst (sql_put None (rename_laptop ''7'') sql_with_laptop)) = 404"
    using inst [where req = "rename_laptop ''7''"] m7 s7 by simp
  have c: "status (fst (sql_put None (rename_laptop ''2'') sql_with_laptop)) = 200
      \<and> (\<exists>r' rs'. select_where_id (NonNegInt 2)
                  (snd (sql_put None (rename_laptop ''2'') sql_with_laptop)) = r' # rs'
            \<and> inventory_name r' = ''Notebook'' \<and> description r' = ''Dell'')"
    using inst [where req = "rename_laptop ''2''"] s2
    by (simp add: n2 fields partially_updated_def) blast
  show ?thesis
    using a b c by simp
qed

section \<open>SearchById\<close>

















section \<open>The handlers on arbitrary states\<close>

text \<open>
  What the handlers do with the uploaded file, in which order they change the files and
  the records, and in which state a deletion ends, for every state and request.
\<close>

lemma file_path_not_empty: "file_path f \<noteq> []"
  by (simp add: file_path_def cache_def)

lemma upload_single_file:
  "file_part req = Some f \<Longrightarrow>
     upload_single req st
       = (Some (file_path f),
          st\<lparr>files := insert (file_path f) (files st),
             trace := trace st @ [FileWritten (file_path f)]\<rparr>)"
  by (simp add: upload_single_def)

lemma upload_single_none: "file_part req = None \<Longrightarrow> upload_single req st = (None, st)"
  by (simp add: upload_single_def)

lemma register_without_name_keeps_upload:
  assumes "body_inventory_name req = Some name" and "trim name = []"
    and "file_part req = Some f"
  shows "status (fst (mem_register req m)) = 400
       \<and> devices (snd (mem_register req m)) = devices m
       \<and> file_path f \<in> files (snd (mem_register req m))
       \<and> status (fst (sql_register e req s)) = 400
       \<and> rows (snd (sql_register e req s)) = rows s
       \<and> file_path f \<in> files (snd (sql_register e req s))"
  using assms
  by (simp add: mem_register_def sql_register_def upload_single_file end_text_def)

lemma mem_put_photo_trace:
  assumes "file_part req = Some f"
    and "find (has_id (Number (params_id req))) (devices m) = Some d"
    and "photo d = Some p" and "p \<noteq> []" and "p \<in> files m"
  shows "trace (snd (mem_put_photo req m))
         = trace m @ [FileWritten (file_path f), FileUnlinked p,
                      PhotoRecorded (Number (params_id req)) (file_path f)]"
  using assms
  by (simp add: mem_put_photo_def upload_single_file existsSync_def unlinkSync_def Let_def)

lemma sql_put_photo_trace:
  assumes "file_part req = Some f"
    and "select_where_id (Number (params_id req)) s = d # ds"
    and "photo d = Some p" and "p \<noteq> []" and "p \<in> files s"
  shows "trace (snd (sql_put_photo None req s))
         = trace s @ [FileWritten (file_path f),
                      PhotoRecorded (Number (params_id req)) (file_path f), FileUnlinked p]"
  using assms
  by (simp add: sql_put_photo_def upload_single_file existsSync_def unlinkSync_def throws_def
        select_where_id_def Let_def)

lemma mem_put_photo_absent:
  assumes "file_part req = Some f"
    and "find (has_id (Number (params_id req))) (devices m) = None"
  shows "status (fst (mem_put_photo req m)) = 404
       \<and> devices (snd (mem_put_photo req m)) = devices m
       \<and> file_path f \<in> files (snd (mem_put_photo req m))"
  using assms by (simp add: mem_put_photo_def upload_single_file end_text_def Let_def)

lemma sql_put_photo_absent:
  assumes "file_part req = Some f"
    and "select_where_id (Number (params_id req)) s = []"
    and "file_path f \<notin> files s"
  shows "status (fst (sql_put_photo None req s)) = 404
       \<and> rows (snd (sql_put_photo None req s)) = rows s
       \<and> files (snd (sql_put_photo None req s)) = files s"
  using assms
  by (simp add: sql_put_photo_def upload_single_file end_text_def throws_def unlinkSync_def
        select_where_id_def Let_def)

lemma mem_register_answer:
  "status (fst (mem_register req m)) = 201 \<Longrightarrow>
     response_property ''photo_url'' (fst (mem_register req m)) = None"
  by (auto simp add: mem_register_def upload_single_def end_text_def send_json_def Let_def
        response_property_def property_def property_photo_url_item_fields
        split: option.splits if_splits)

lemma sql_register_answer:
  "status (fst (sql_register e req s)) = 201 \<Longrightarrow>
     response_property ''photo_url'' (fst (sql_register e req s))
       = Some (case file_part req of None \<Rightarrow> JNull
               | Some f \<Rightarrow> JString (photo_url_of (auto_increment s)))"
  by (auto simp add: sql_register_def upload_single_def end_text_def send_json_def Let_def
        response_property_def property_def error_message_def truthy_def file_path_not_empty
        split: option.splits if_splits)

lemma all_handlers_answer_405:
  "(route_of (req_path req) = Register \<and> req_method req \<noteq> POST \<longrightarrow>
      fst (mem_app req m) = method_not_allowed ''POST''
    \<and> fst (sql_app e req s) = method_not_allowed ''POST'')
   \<and> (route_of (req_path req) = Inventory \<and> req_method req \<notin> {GET, HEAD} \<longrightarrow>
      fst (mem_app req m) = method_not_allowed ''GET''
    \<and> fst (sql_app e req s) = method_not_allowed ''GET'')
   \<and> (route_of (req_path req) = InventoryId i \<and> req_method req \<notin> {GET, HEAD, PUT, DELETE} \<longrightarrow>
      fst (mem_app req m) = method_not_allowed ''GET, PUT, DELETE''
    \<and> fst (sql_app e req s) = method_not_allowed ''GET, PUT, DELETE'')
   \<and> (route_of (req_path req) = InventoryPhoto i \<and> req_method req \<notin> {GET, HEAD, PUT} \<longrightarrow>
      fst (mem_app req m) = method_not_allowed ''GET, PUT''
    \<and> fst (sql_app e req s) = method_not_allowed ''GET, PUT'')
   \<and> (route_of (req_path req) = Search \<and> req_method req \<notin> {POST, OPTIONS} \<longrightarrow>
      fst (mem_app req m) = express_not_found
    \<and> fst (sql_app e req s) = express_not_found)"
  by (simp add: mem_app_def sql_app_def)


lemma findIndex_of_find:
  "find P xs = Some d \<Longrightarrow> \<exists>i. findIndex P xs = Some i \<and> xs ! i = d"
  by (induction xs) (auto split: if_splits)

lemma findIndex_None_of_find: "find P xs = None \<Longrightarrow> findIndex P xs = None"
  by (induction xs) (auto split: if_splits)

lemma no_other_item_with_id:
  assumes "has_id n x" and "item_id x \<notin> item_id ` set xs"
  shows "find (has_id n) xs = None"
  using assms by (force simp: find_None_iff has_id_def image_iff)

lemma find_after_splice:
  "distinct (map item_id xs) \<Longrightarrow> findIndex (has_id n) xs = Some i \<Longrightarrow>
     find (has_id n) (take i xs @ drop (Suc i) xs) = None"
proof (induction xs arbitrary: i)
  case Nil
  then show ?case by simp
next
  case (Cons x xs)
  show ?case
  proof (cases "has_id n x")
    case True
    then have "i = 0" using Cons.prems by simp
    moreover have "find (has_id n) xs = None"
      using True Cons.prems(1) by (intro no_other_item_with_id [of n x]) auto
    ultimately show ?thesis by simp
  next
    case False
    then obtain j where j: "findIndex (has_id n) xs = Some j" "i = Suc j"
      using Cons.prems(2) by (auto split: option.splits)
    then show ?thesis
      using False Cons.IH [of j] Cons.prems(1) by simp
  qed
qed

lemma mem_delete_present:
  assumes "distinct (map item_id (devices m))"
    and "find (has_id (Number (params_id req))) (devices m) = Some d"
  shows "status (fst (mem_delete req m)) = 200
       \<and> find (has_id (Number (params_id req))) (devices (snd (mem_delete req m))) = None
       \<and> (\<forall>p. photo d = Some p \<and> p \<noteq> [] \<longrightarrow> p \<notin> files (snd (mem_delete req m)))"
proof -
  obtain i where i: "findIndex (has_id (Number (params_id req))) (devices m) = Some i"
    "devices m ! i = d"
    using findIndex_of_find [OF assms(2)] by blast
  show ?thesis
    using i find_after_splice [OF assms(1) i(1)]
    by (auto simp add: mem_delete_def Let_def existsSync_def unlinkSync_def send_json_def
          split: option.splits)
qed

lemma mem_delete_absent:
  assumes "find (has_id (Number (params_id req))) (devices m) = None"
  shows "status (fst (mem_delete req m)) = 404 \<and> snd (mem_delete req m) = m"
  using findIndex_None_of_find [OF assms] by (simp add: mem_delete_def end_text_def)

lemma mem_get_absent:
  "find (has_id (Number (params_id req))) (devices m) = None \<Longrightarrow>
     status (fst (mem_get req m)) = 404 \<and> status (fst (mem_get_photo req m)) = 404"
  by (simp add: mem_get_def mem_get_photo_def end_text_def)

lemma sql_delete_present:
  assumes "select_where_id (Number (params_id req)) s = d # ds"
  shows "status (fst (sql_delete None req s)) = 200
       \<and> select_where_id (Number (params_id req)) (snd (sql_delete None req s)) = []
       \<and> (\<forall>p. photo d = Some p \<and> p \<noteq> [] \<longrightarrow> p \<notin> files (snd (sql_delete None req s)))"
  using assms
  by (auto simp add: sql_delete_def Let_def existsSync_def unlinkSync_def send_json_def
        throws_def select_where_id_def split: option.splits)

lemma sql_delete_absent:
  assumes "select_where_id (Number (params_id req)) s = []"
  shows "status (fst (sql_delete None req s)) = 404 \<and> snd (sql_delete None req s) = s"
  using assms by (simp add: sql_delete_def end_text_def throws_def)

lemma sql_get_absent:
  "select_where_id (Number (params_id req)) s = [] \<Longrightarrow>
     status (fst (sql_get None req s)) = 404 \<and> status (fst (sql_get_photo None req s)) = 404"
  by (simp add: sql_get_def sql_get_photo_def end_text_def throws_def)

subsection \<open>Ids in reachable states, and what follows a deletion\<close>

lemma map_item_id_update_first:
  "(\<And>d. item_id (f d) = item_id d) \<Longrightarrow> map item_id (update_first P f xs) = map item_id xs"
  by (induction xs) auto

lemma ids_fresh_iff:
  "ids_fresh xs c = (distinct (map item_id xs) \<and> (\<forall>i \<in> set (map item_id xs). i < c))"
  by (auto simp: ids_fresh_def list_all_iff)

lemma ids_fresh_update_first:
  assumes "\<And>d. item_id (f d) = item_id d" and "ids_fresh xs c"
  shows "ids_fresh (update_first P f xs) c"
  using assms(2) map_item_id_update_first [of f P xs, OF assms(1)]
  unfolding ids_fresh_iff by simp

lemma distinct_map_splice:
  "distinct (map g xs) \<Longrightarrow> distinct (map g (take i xs @ drop (Suc i) xs))"
proof (induction xs arbitrary: i)
  case Nil
  then show ?case by simp
next
  case (Cons x xs)
  show ?case
  proof (cases i)
    case 0
    then show ?thesis using Cons.prems by simp
  next
    case (Suc j)
    have "g x \<notin> g ` set (take j xs @ drop (Suc j) xs)"
      using Cons.prems by (auto dest: in_set_takeD in_set_dropD)
    then show ?thesis
      using Suc Cons.IH [of j] Cons.prems by auto
  qed
qed

lemma ids_fresh_splice:
  assumes "ids_fresh xs c"
  shows "ids_fresh (take i xs @ drop (Suc i) xs) c"
  using assms distinct_map_splice [of item_id xs i]
  by (auto simp: ids_fresh_def list_all_iff dest: in_set_takeD in_set_dropD)

lemma ids_fresh_push:
  assumes "ids_fresh xs c" and "item_id d = c"
  shows "ids_fresh (xs @ [d]) (Suc c)"
  using assms by (force simp: ids_fresh_def list_all_iff)

lemma devices_upload_single:
  "devices (snd (upload_single req m)) = devices m
   \<and> Id_counter (snd (upload_single req m)) = Id_counter m"
  by (simp add: upload_single_def split: option.splits)

lemma mem_register_ids_fresh:
  "ids_fresh (devices m) (Id_counter m) \<Longrightarrow>
     ids_fresh (devices (snd (mem_register req m))) (Id_counter (snd (mem_register req m)))"
  by (auto simp add: mem_register_def upload_single_def Let_def ids_fresh_push
        split: option.splits)

lemma mem_put_ids_fresh:
  "ids_fresh (devices m) (Id_counter m) \<Longrightarrow>
     ids_fresh (devices (snd (mem_put req m))) (Id_counter (snd (mem_put req m)))"
  by (auto simp add: mem_put_def Let_def ids_fresh_update_first item_id_assign_fields
        split: option.splits)

lemma mem_delete_ids_fresh:
  "ids_fresh (devices m) (Id_counter m) \<Longrightarrow>
     ids_fresh (devices (snd (mem_delete req m))) (Id_counter (snd (mem_delete req m)))"
  by (auto simp add: mem_delete_def Let_def unlinkSync_def ids_fresh_splice
        split: option.splits if_splits)

lemma mem_put_photo_ids_fresh:
  "ids_fresh (devices m) (Id_counter m) \<Longrightarrow>
     ids_fresh (devices (snd (mem_put_photo req m))) (Id_counter (snd (mem_put_photo req m)))"
  by (auto simp add: mem_put_photo_def upload_single_def Let_def unlinkSync_def
        ids_fresh_update_first split: option.splits if_splits)

lemma mem_app_ids_fresh:
  assumes "ids_fresh (devices m) (Id_counter m)"
  shows "ids_fresh (devices (snd (mem_app req m))) (Id_counter (snd (mem_app req m)))"
proof (cases "route_of (req_path req)")
  case Register
  then show ?thesis using assms mem_register_ids_fresh [of m req] by (simp add: mem_app_def)
next
  case Inventory
  then show ?thesis using assms by (simp add: mem_app_def mem_list_def)
next
  case (InventoryId i)
  then show ?thesis
    using assms mem_put_ids_fresh [of m] mem_delete_ids_fresh [of m]
    by (simp add: mem_app_def mem_get_def split: option.splits)
next
  case (InventoryPhoto i)
  then show ?thesis
    using assms mem_put_photo_ids_fresh [of m]
    by (simp add: mem_app_def mem_get_photo_def split: option.splits)
next
  case Search
  then show ?thesis
    using assms by (simp add: mem_app_def mem_search_def Let_def split: option.splits)
next
  case Unrouted
  then show ?thesis using assms by (simp add: mem_app_def)
qed

lemma mem_reachable_ids_fresh:
  "mem_reachable m \<Longrightarrow> ids_fresh (devices m) (Id_counter m)"
proof (induction rule: mem_reachable.induct)
  case initial
  then show ?case by (simp add: mem_init_def ids_fresh_def)
next
  case (request m req)
  then show ?case by (simp add: mem_app_ids_fresh)
qed

lemma deleted_item_is_not_found:
  assumes "mem_reachable m"
    and "find (has_id (Number (params_id req))) (devices m) = Some d"
  shows "status (fst (mem_delete req m)) = 200
       \<and> status (fst (mem_get req (snd (mem_delete req m)))) = 404
       \<and> status (fst (mem_get_photo req (snd (mem_delete req m)))) = 404
       \<and> (\<forall>p. photo d = Some p \<and> p \<noteq> [] \<longrightarrow> p \<notin> files (snd (mem_delete req m)))"
proof -
  have "distinct (map item_id (devices m))"
    using mem_reachable_ids_fresh [OF assms(1)] by (simp add: ids_fresh_def)
  then show ?thesis
    using mem_delete_present [OF _ assms(2)] mem_get_absent [of req "snd (mem_delete req m)"]
    by simp
qed

lemma deleted_row_is_not_found:
  assumes "select_where_id (Number (params_id req)) s = d # ds"
  shows "status (fst (sql_delete None req s)) = 200
       \<and> status (fst (sql_get None req (snd (sql_delete None req s)))) = 404
       \<and> status (fst (sql_get_photo None req (snd (sql_delete None req s)))) = 404
       \<and> (\<forall>p. photo d = Some p \<and> p \<noteq> [] \<longrightarrow> p \<notin> files (snd (sql_delete None req s)))"
  using sql_delete_present [OF assms] sql_get_absent [of req "snd (sql_delete None req s)"]
  by simp

section \<open>Where the handlers part from the specification\<close>

lemmas eval_defs = upload_single_def existsSync_def unlinkSync_def throws_def end_text_def
  send_json_def error_message_def trim_defs Let_def has_id_def select_where_id_def

text \<open>
  Claim C2. A Register call with an empty or white-space name fails with 400, creates no
  item and leaves no orphaned file: the file written for the request is deleted before
  the answer. The handlers do the first two and not the third. For \<^verbatim>\<open>POST /register\<close>
  with a name of three spaces and a photo, from the initial state, both variants answer
  400 and create no item, and the file multer wrote stays on disk with no item that
  refers to it.
\<close>

theorem blank_registration_leaves_the_upload:
  "status (fst (mem_app blank_registration mem_init)) = 400
   \<and> devices (snd (mem_app blank_registration mem_init)) = []
   \<and> files (snd (mem_app blank_registration mem_init))
       = {''public/uploads/photo-1700000000000-1.jpg''}
   \<and> status (fst (sql_app None blank_registration sql_init)) = 400
   \<and> rows (snd (sql_app None blank_registration sql_init)) = rows sql_init
   \<and> files (snd (sql_app None blank_registration sql_init))
       = {''public/uploads/photo-1700000000000-1.jpg''}"
  by (simp add: mem_app_def sql_app_def blank_registration_def register_laptop_def no_fields_def mem_register_def sql_register_def
        eval_defs file_path_photoA mem_init_def sql_init_def)

text \<open>
  Claim C3. A successful ReplacePhoto on an item that has a photo stores the new file,
  records the new reference and only then deletes the old file. The MySQL variant has
  this order; the in-memory variant unlinks the old file before it assigns
  \<^verbatim>\<open>device.photo\<close>. The effects of \<^verbatim>\<open>PUT /inventory/:id/photo\<close> on the laptop, in order:
\<close>

theorem replace_photo_order_of_effects:
  "status (fst (mem_app (replace_photo ''1'') mem_with_laptop)) = 200
   \<and> trace (snd (mem_app (replace_photo ''1'') mem_with_laptop))
       = trace mem_with_laptop @
         [FileWritten ''public/uploads/photo-1700000000001-2.png'',
          FileUnlinked ''public/uploads/photo-1700000000000-1.jpg'',
          PhotoRecorded (NonNegInt 1) ''public/uploads/photo-1700000000001-2.png'']
   \<and> status (fst (sql_app None (replace_photo ''2'') sql_with_laptop)) = 200
   \<and> trace (snd (sql_app None (replace_photo ''2'') sql_with_laptop))
       = trace sql_with_laptop @
         [FileWritten ''public/uploads/photo-1700000000001-2.png'',
          PhotoRecorded (NonNegInt 2) ''public/uploads/photo-1700000000001-2.png'',
          FileUnlinked ''public/uploads/photo-1700000000000-1.jpg'']"
  by (simp add: mem_app_def sql_app_def replace_photo_def on_photo_def no_fields_def mem_put_photo_def sql_put_photo_def
        eval_defs file_path_photoB mem_with_laptop_eq sql_with_laptop_eq Number_1 Number_2
        answer_first_row_def)


text \<open>
  Claim C1. After every operation, every photo reference names a file that exists and
  every file is the photo of some item. The initial states have both properties, and
  these requests end in a state with a file that no item refers to: a registration with
  a blank name and a photo (both variants), a photo for an item that does not exist
  (in-memory variant), a registration whose \<^verbatim>\<open>INSERT\<close> the database rejects (MySQL
  variant).
\<close>

theorem orphan_files_after_rejected_requests:
  "no_orphans (devices mem_init) (files mem_init)
   \<and> no_dangling (devices mem_init) (files mem_init)
   \<and> \<not> no_orphans (devices (snd (mem_app blank_registration mem_init)))
                    (files (snd (mem_app blank_registration mem_init)))
   \<and> \<not> no_orphans (devices (snd (mem_app (replace_photo ''7'') mem_init)))
                    (files (snd (mem_app (replace_photo ''7'') mem_init)))
   \<and> no_orphans (rows sql_init) (files sql_init)
   \<and> no_dangling (rows sql_init) (files sql_init)
   \<and> \<not> no_orphans (rows (snd (sql_app None blank_registration sql_init)))
                    (files (snd (sql_app None blank_registration sql_init)))
   \<and> \<not> no_orphans (rows (snd (sql_app first_query_fails register_laptop sql_init)))
                    (files (snd (sql_app first_query_fails register_laptop sql_init)))"
  by (simp add: mem_app_def sql_app_def blank_registration_def register_laptop_def
        replace_photo_def on_photo_def no_fields_def mem_register_def sql_register_def
        mem_put_photo_def eval_defs file_path_photoA file_path_photoB mem_init_def sql_init_def
        no_orphans_def no_dangling_def first_query_fails_def Number_7)

text \<open>
  Claim C4. ReplacePhoto for an item that does not exist fails with 404 and deletes the
  file just uploaded; without a file it fails with 400; the items stay as they are.
  With the laptop stored and a photo sent for the id 7, which no item has, both variants
  answer 404 and leave the items; the MySQL variant unlinks the uploaded file, the
  in-memory variant leaves it on disk. Without a file, on an item that exists, both
  answer 400 and change nothing.
\<close>

theorem replace_photo_of_absent_item:
  "status (fst (mem_app (replace_photo ''7'') mem_with_laptop)) = 404
   \<and> devices (snd (mem_app (replace_photo ''7'') mem_with_laptop)) = devices mem_with_laptop
   \<and> files (snd (mem_app (replace_photo ''7'') mem_with_laptop))
       = {''public/uploads/photo-1700000000001-2.png'',
          ''public/uploads/photo-1700000000000-1.jpg''}
   \<and> status (fst (sql_app None (replace_photo ''7'') sql_with_laptop)) = 404
   \<and> rows (snd (sql_app None (replace_photo ''7'') sql_with_laptop)) = rows sql_with_laptop
   \<and> files (snd (sql_app None (replace_photo ''7'') sql_with_laptop))
       = {''public/uploads/photo-1700000000000-1.jpg''}
   \<and> fst (mem_app (on_photo PUT ''1'') mem_with_laptop) = end_text 400 ''Photo file not sent''
   \<and> snd (mem_app (on_photo PUT ''1'') mem_with_laptop) = mem_with_laptop
   \<and> fst (sql_app None (on_photo PUT ''2'') sql_with_laptop) = end_text 400 ''Photo file not sent''
   \<and> snd (sql_app None (on_photo PUT ''2'') sql_with_laptop) = sql_with_laptop"
  by (simp add: mem_app_def sql_app_def replace_photo_def on_photo_def no_fields_def mem_put_photo_def sql_put_photo_def
        eval_defs file_path_photoB mem_with_laptop_eq sql_with_laptop_eq Number_1 Number_2
        Number_7)

text \<open>
  Claim C5. Delete removes the record first and the file afterwards. The MySQL variant
  has this order; the in-memory variant unlinks the file and then splices the record out
  of the array. The effects of \<^verbatim>\<open>DELETE /inventory/:id\<close> on the laptop, in order:
\<close>

theorem delete_order_of_effects:
  "status (fst (mem_app (on_item DELETE ''1'') mem_with_laptop)) = 200
   \<and> trace (snd (mem_app (on_item DELETE ''1'') mem_with_laptop))
       = trace mem_with_laptop @
         [FileUnlinked ''public/uploads/photo-1700000000000-1.jpg'', RecordDeleted (NonNegInt 1)]
   \<and> status (fst (sql_app None (on_item DELETE ''2'') sql_with_laptop)) = 200
   \<and> trace (snd (sql_app None (on_item DELETE ''2'') sql_with_laptop))
       = trace sql_with_laptop @
         [RecordDeleted (NonNegInt 2), FileUnlinked ''public/uploads/photo-1700000000000-1.jpg'']"
  by (simp add: mem_app_def sql_app_def on_item_def no_fields_def mem_delete_def sql_delete_def
        eval_defs mem_with_laptop_eq sql_with_laptop_eq Number_1 Number_2)

text \<open>
  Claim C6. The answer of a successful Register has a \<^verbatim>\<open>photo_url\<close> exactly when a photo
  was stored, and it is \<^verbatim>\<open>/inventory/{id}/photo\<close>. The MySQL variant answers so. The
  in-memory variant answers with the stored object: it has no property \<^verbatim>\<open>photo_url\<close>, and
  its property \<^verbatim>\<open>photo\<close> is the path of the file.
\<close>

theorem register_answer_photo_url:
  "status (fst (mem_app register_laptop mem_init)) = 201
   \<and> response_property ''photo_url'' (fst (mem_app register_laptop mem_init)) = None
   \<and> response_property ''photo'' (fst (mem_app register_laptop mem_init))
       = Some (JString ''public/uploads/photo-1700000000000-1.jpg'')
   \<and> status (fst (sql_app None register_laptop sql_init)) = 201
   \<and> response_property ''photo_url'' (fst (sql_app None register_laptop sql_init))
       = Some (JString ''/inventory/2/photo'')
   \<and> response_property ''photo'' (fst (sql_app None register_laptop sql_init)) = None"
  by (simp add: mem_app_def sql_app_def register_laptop_def no_fields_def mem_register_def sql_register_def
        eval_defs file_path_photoA mem_init_def sql_init_def response_property_def property_def
        item_fields_def json_of_photo_def truthy_def photo_url_of_def string_of_nat.simps
        digit_char_def)

text \<open>
  Claim C9. Every other method on a defined path is answered with 405 and an \<^verbatim>\<open>Allow\<close>
  header. \<^verbatim>\<open>/search\<close> has no \<^verbatim>\<open>all\<close> handler in either variant: \<^verbatim>\<open>GET /search\<close> is
  answered by Express with 404 and no \<^verbatim>\<open>Allow\<close> header, where \<^verbatim>\<open>GET /register\<close> is
  answered with 405 and \<^verbatim>\<open>Allow: POST\<close>.
\<close>

theorem search_answers_no_405:
  "fst (mem_app get_search m) = express_not_found
   \<and> fst (sql_app e get_search s) = express_not_found
   \<and> status express_not_found = 404
   \<and> headers express_not_found = []
   \<and> fst (mem_app get_register m) = method_not_allowed ''POST''
   \<and> fst (sql_app e get_register s) = method_not_allowed ''POST''"
  by (simp add: mem_app_def sql_app_def get_search_def get_register_def no_fields_def express_not_found_def)

end
